theory Spec2Isabelle
  imports Main "HOL-Library.Word" "HOL-Library.Char_ord" "HOL-Library.List_Lexorder"
begin

section \<open>AfyaTrack backend: token service and patient-access authorization\<close>

text \<open>
  The repository holds two implementations of the same API. The ORM-based one
  (\<^verbatim>\<open>entities/RefreshToken.ts\<close>, \<^verbatim>\<open>utils/jwt.ts\<close>, \<^verbatim>\<open>services/AuthService.ts\<close>)
  keeps refresh tokens as rows with a revocation flag. The SQL-driven one
  (\<^verbatim>\<open>services/auth.service.ts\<close>, \<^verbatim>\<open>middleware/auth.ts\<close>, \<^verbatim>\<open>database/schema.sql\<close>)
  keeps them in a table without such a flag and deletes rows instead of revoking them.
  Both are embedded below, each under the names of its source.

  Times are milliseconds since the epoch (what a JavaScript \<^verbatim>\<open>Date\<close> holds), as \<open>int\<close>.
  Every operation reads the clock once; the reading is the argument \<open>now\<close>.
  Tables are lists of rows in storage order; a lookup returns the first matching row.
\<close>

subsection \<open>Entities of the ORM-based service\<close>

datatype UserRole = DOCTOR | NURSE | ADMIN | RECEPTIONIST

record User =
  u_id :: string
  u_email :: string
  u_password :: string
  u_name :: string
  u_role :: UserRole
  u_facilityId :: "string option"
  u_isActive :: bool
  u_lastLogin :: "int option"

record Facility =
  f_id :: string
  f_name :: string
  f_type :: string
  f_isActive :: bool

record RefreshToken =
  rt_id :: string
  token :: string
  userId :: string
  expiresAt :: int
  isRevoked :: bool
  createdByIp :: "string option"
  revokedByIp :: "string option"
  revokedAt :: "int option"
  createdAt :: int

text \<open>\<^verbatim>\<open>get isActive()\<close>: not revoked and \<^verbatim>\<open>expiresAt > new Date()\<close>.\<close>

definition isActive :: "RefreshToken \<Rightarrow> int \<Rightarrow> bool" where
  "isActive t now = (\<not> isRevoked t \<and> expiresAt t > now)"

text \<open>\<^verbatim>\<open>revoke(revokedByIp?)\<close> sets the flag, the time and the address.\<close>

definition revoke :: "RefreshToken \<Rightarrow> string option \<Rightarrow> int \<Rightarrow> RefreshToken" where
  "revoke t ip now = t\<lparr>isRevoked := True, revokedAt := Some now, revokedByIp := ip\<rparr>"

subsection \<open>The JWT library and the password service (collaborators outside the repository)\<close>

text \<open>
  \<^verbatim>\<open>jsonwebtoken\<close> is not part of the repository. Its \<^verbatim>\<open>verify\<close> is taken as a
  parameter: it either returns the decoded payload or throws, and the class of what it
  throws is what the callers inspect with \<^verbatim>\<open>instanceof\<close>. \<^verbatim>\<open>TokenExpiredError\<close> and
  \<^verbatim>\<open>NotBeforeError\<close> are subclasses of \<^verbatim>\<open>JsonWebTokenError\<close>; \<open>OtherError\<close> stands for
  any exception outside that hierarchy.
\<close>

datatype jwt_thrown = TokenExpiredError | NotBeforeError | JsonWebTokenError | OtherError

fun instanceof_TokenExpiredError :: "jwt_thrown \<Rightarrow> bool" where
  "instanceof_TokenExpiredError TokenExpiredError = True"
| "instanceof_TokenExpiredError _ = False"

fun instanceof_JsonWebTokenError :: "jwt_thrown \<Rightarrow> bool" where
  "instanceof_JsonWebTokenError OtherError = False"
| "instanceof_JsonWebTokenError _ = True"

datatype 'a jwt_outcome = Returned 'a | Threw jwt_thrown

record JwtPayload =
  p_userId :: string
  p_email :: string
  p_role :: string
  p_facilityId :: "string option"

record SignOptions =
  expiresIn :: string
  so_issuer :: "string option"
  so_audience :: "string option"

record VerifyOptions =
  vo_issuer :: "string option"
  vo_audience :: "string option"

record JwtClaims =
  c_payload :: JwtPayload
  c_iat :: int
  c_exp :: int
  c_iss :: "string option"
  c_aud :: "string option"

text \<open>
  \<^verbatim>\<open>jwt.sign\<close> returns the compact serialization of RFC 7519: header, payload and
  signature segments joined by dots. The segment encoders, the signature function and
  the parser of time spans such as \<^verbatim>\<open>'24h'\<close> are the library's, hence parameters.
  Options that \<^verbatim>\<open>jwt.sign\<close> itself refuses are outside the model.
\<close>

record JwtLib =
  encodeHeader :: string
  encodePayload :: "JwtClaims \<Rightarrow> string"
  computeSignature :: "string \<Rightarrow> string \<Rightarrow> string"
  timespan :: "string \<Rightarrow> int"
  verify :: "string \<Rightarrow> string \<Rightarrow> VerifyOptions \<Rightarrow> int \<Rightarrow> JwtPayload jwt_outcome"

definition sign :: "JwtLib \<Rightarrow> JwtPayload \<Rightarrow> string \<Rightarrow> SignOptions \<Rightarrow> int \<Rightarrow> string" where
  "sign L payload secret opts now =
     (let iat = now div 1000;
          claims = \<lparr>c_payload = payload, c_iat = iat, c_exp = iat + timespan L (expiresIn opts),
                    c_iss = so_issuer opts, c_aud = so_audience opts\<rparr>;
          signingInput = encodeHeader L @ ''.'' @ encodePayload L claims
      in signingInput @ ''.'' @ computeSignature L secret signingInput)"

text \<open>\<^verbatim>\<open>utils/password\<close> is not under the sources either; its three functions are parameters.\<close>

record PasswordService =
  verifyPassword :: "string \<Rightarrow> string \<Rightarrow> bool"
  hashPassword :: "string \<Rightarrow> string"
  validatePasswordStrength :: "string \<Rightarrow> bool"

text \<open>
  The built-ins of the JavaScript runtime that the services call are parameters as well:
  \<^verbatim>\<open>String.prototype.toLowerCase\<close> (Unicode-aware), and the four ways in which
  \<^verbatim>\<open>getTokenExpirationDate\<close> moves a \<^verbatim>\<open>Date\<close>, namely
  \<^verbatim>\<open>d.setSeconds(d.getSeconds() + n)\<close>, \<^verbatim>\<open>d.setMinutes(d.getMinutes() + n)\<close>,
  \<^verbatim>\<open>d.setHours(d.getHours() + n)\<close> and \<^verbatim>\<open>d.setDate(d.getDate() + n)\<close>. These work on
  local time, and their result is an Invalid Date once it leaves the range of time
  values; a \<^verbatim>\<open>Date\<close> that may be invalid is an \<open>int option\<close>, \<open>None\<close> being the Invalid Date.
  The amount is given as the number that the digits denote.
\<close>

record JsRuntime =
  toLowerCase :: "string \<Rightarrow> string"
  plusSeconds :: "int \<Rightarrow> nat \<Rightarrow> int option"
  plusMinutes :: "int \<Rightarrow> nat \<Rightarrow> int option"
  plusHours :: "int \<Rightarrow> nat \<Rightarrow> int option"
  plusDays :: "int \<Rightarrow> nat \<Rightarrow> int option"

subsection \<open>\<^verbatim>\<open>utils/jwt.ts\<close>: JwtService\<close>

record Env =
  ACCESS_TOKEN_SECRET :: string
  ACCESS_TOKEN_EXPIRES_IN :: string
  REFRESH_TOKEN_EXPIRES_IN :: string

datatype AuthError =
    InvalidEmailOrPassword
  | UserAlreadyExists
  | PasswordValidationFailed
  | InvalidFacilityId
  | InvalidOrExpiredRefreshToken
  | UserAccountDeactivated
  | AccessTokenExpired
  | InvalidAccessToken
  | TokenVerificationFailed
  | InvalidExpirationFormat
  | TypeError
  | RangeError
  | InvalidDateValue
  | QueryFailedError

definition generateAccessToken :: "JwtLib \<Rightarrow> Env \<Rightarrow> JwtPayload \<Rightarrow> int \<Rightarrow> string" where
  "generateAccessToken L env payload now =
     sign L payload (ACCESS_TOKEN_SECRET env)
       \<lparr>expiresIn = ACCESS_TOKEN_EXPIRES_IN env, so_issuer = Some ''afyatrack-api'',
        so_audience = Some ''afyatrack-frontend''\<rparr> now"

text \<open>
  \<^verbatim>\<open>crypto.randomBytes(64).toString('hex')\<close>. The entropy source is a stream of bytes;
  \<open>randomBytes n\<close> takes its first \<open>n\<close>. Hex encoding writes two lower-case digits per byte.
\<close>

definition randomBytes :: "nat \<Rightarrow> (nat \<Rightarrow> 8 word) \<Rightarrow> 8 word list" where
  "randomBytes n src = map src [0..<n]"

definition hexDigits :: string where
  "hexDigits = ''0123456789abcdef''"

definition hexByte :: "8 word \<Rightarrow> string" where
  "hexByte b = [hexDigits ! (unat b div 16), hexDigits ! (unat b mod 16)]"

definition toHex :: "8 word list \<Rightarrow> string" where
  "toHex bs = concat (map hexByte bs)"

definition generateRefreshToken :: "(nat \<Rightarrow> 8 word) \<Rightarrow> string" where
  "generateRefreshToken src = toHex (randomBytes 64 src)"

record TokenPair =
  accessToken :: string
  refreshToken_of :: string

definition generateTokenPair ::
  "JwtLib \<Rightarrow> Env \<Rightarrow> JwtPayload \<Rightarrow> int \<Rightarrow> (nat \<Rightarrow> 8 word) \<Rightarrow> TokenPair" where
  "generateTokenPair L env payload now src =
     \<lparr>accessToken = generateAccessToken L env payload now,
      refreshToken_of = generateRefreshToken src\<rparr>"

text \<open>
  \<^verbatim>\<open>verifyAccessToken\<close>: the \<^verbatim>\<open>catch\<close> tests \<^verbatim>\<open>TokenExpiredError\<close> first, then
  \<^verbatim>\<open>JsonWebTokenError\<close>, and maps everything else to a third error.
\<close>

definition verifyAccessToken :: "JwtLib \<Rightarrow> Env \<Rightarrow> int \<Rightarrow> string \<Rightarrow> AuthError + JwtPayload" where
  "verifyAccessToken L env now tok =
     (case verify L tok (ACCESS_TOKEN_SECRET env)
             \<lparr>vo_issuer = Some ''afyatrack-api'', vo_audience = Some ''afyatrack-frontend''\<rparr> now of
        Returned payload \<Rightarrow> Inr payload
      | Threw e \<Rightarrow>
          if instanceof_TokenExpiredError e then Inl AccessTokenExpired
          else if instanceof_JsonWebTokenError e then Inl InvalidAccessToken
          else Inl TokenVerificationFailed)"

text \<open>
  \<^verbatim>\<open>getTokenExpirationDate\<close>: the string must match \<^verbatim>\<open>/^(\d+)([smhd])$/\<close>, that is, one or
  more decimal digits followed by exactly one unit letter. It returns a \<^verbatim>\<open>Date\<close>, which
  the runtime may have made invalid.
\<close>

definition isDigit :: "char \<Rightarrow> bool" where
  "isDigit c = (c \<in> set ''0123456789'')"

definition digitVal :: "char \<Rightarrow> nat" where
  "digitVal c = of_char c - of_char CHR ''0''"

definition parseInt10 :: "string \<Rightarrow> nat" where
  "parseInt10 ds = foldl (\<lambda>acc c. 10 * acc + digitVal c) 0 ds"

definition matchExpiresIn :: "string \<Rightarrow> (string \<times> char) option" where
  "matchExpiresIn s =
     (if s = [] then None
      else let amount = butlast s; unit = last s
           in if amount \<noteq> [] \<and> list_all isDigit amount \<and> unit \<in> set ''smhd''
              then Some (amount, unit) else None)"

definition getTokenExpirationDate :: "JsRuntime \<Rightarrow> string \<Rightarrow> int \<Rightarrow> AuthError + int option" where
  "getTokenExpirationDate J expIn now =
     (case matchExpiresIn expIn of
        None \<Rightarrow> Inl InvalidExpirationFormat
      | Some (amount, unit) \<Rightarrow>
          let amountNum = parseInt10 amount
          in if unit = CHR ''s'' then Inr (plusSeconds J now amountNum)
             else if unit = CHR ''m'' then Inr (plusMinutes J now amountNum)
             else if unit = CHR ''h'' then Inr (plusHours J now amountNum)
             else Inr (plusDays J now amountNum))"

definition getRefreshTokenExpirationDate :: "JsRuntime \<Rightarrow> Env \<Rightarrow> int \<Rightarrow> AuthError + int option" where
  "getRefreshTokenExpirationDate J env now =
     getTokenExpirationDate J (REFRESH_TOKEN_EXPIRES_IN env) now"

text \<open>
  \<^verbatim>\<open>JwtService.getTokenExpirationDate().toISOString()\<close>, the \<^verbatim>\<open>expiresAt\<close> of every
  response: \<^verbatim>\<open>toISOString\<close> throws a RangeError on an Invalid Date. The response keeps
  the time value instead of its ISO text.
\<close>

definition accessExpiresAt :: "JsRuntime \<Rightarrow> Env \<Rightarrow> int \<Rightarrow> AuthError + int" where
  "accessExpiresAt J env now =
     (case getTokenExpirationDate J (ACCESS_TOKEN_EXPIRES_IN env) now of
        Inl e \<Rightarrow> Inl e
      | Inr None \<Rightarrow> Inl RangeError
      | Inr (Some expires) \<Rightarrow> Inr expires)"

text \<open>Both configured lifetimes are well-formed and lead to valid dates at \<open>now\<close>.\<close>

definition validLifetimes :: "JsRuntime \<Rightarrow> Env \<Rightarrow> int \<Rightarrow> bool" where
  "validLifetimes J env now =
     ((case getTokenExpirationDate J (ACCESS_TOKEN_EXPIRES_IN env) now of
         Inr (Some a) \<Rightarrow> True | _ \<Rightarrow> False) \<and>
      (case getRefreshTokenExpirationDate J env now of
         Inr (Some b) \<Rightarrow> True | _ \<Rightarrow> False))"

text \<open>\<^verbatim>\<open>extractTokenFromHeader\<close>: the text after \<^verbatim>\<open>'Bearer '\<close>, when the header starts with it.\<close>

definition extractTokenFromHeader :: "string option \<Rightarrow> string option" where
  "extractTokenFromHeader authHeader =
     (case authHeader of
        None \<Rightarrow> None
      | Some h \<Rightarrow> if h = [] \<or> take 7 h \<noteq> ''Bearer '' then None else Some (drop 7 h))"

subsection \<open>\<^verbatim>\<open>services/AuthService.ts\<close>: the ORM-based AuthService\<close>

record DB =
  users :: "User list"
  refreshTokens :: "RefreshToken list"
  facilities :: "Facility list"

record AuthResponse =
  r_id :: string
  r_email :: string
  r_name :: string
  r_role :: UserRole
  r_facilityId :: "string option"
  r_facility :: "Facility option"
  r_token :: string
  r_refreshToken :: string
  r_expiresAt :: int

fun roleString :: "UserRole \<Rightarrow> string" where
  "roleString DOCTOR = ''doctor''"
| "roleString NURSE = ''nurse''"
| "roleString ADMIN = ''admin''"
| "roleString RECEPTIONIST = ''receptionist''"

text \<open>
  \<^verbatim>\<open>Repository.save\<close> of an entity that carries a primary key updates the stored row
  with that key, and inserts the entity when no row has it.
\<close>

definition saveToken :: "RefreshToken \<Rightarrow> RefreshToken list \<Rightarrow> RefreshToken list" where
  "saveToken t tbl =
     (if find (\<lambda>r. rt_id r = rt_id t) tbl = None then tbl @ [t]
      else map (\<lambda>r. if rt_id r = rt_id t then t else r) tbl)"

definition saveUser :: "User \<Rightarrow> User list \<Rightarrow> User list" where
  "saveUser u tbl =
     (if find (\<lambda>x. u_id x = u_id u) tbl = None then tbl @ [u]
      else map (\<lambda>x. if u_id x = u_id u then u else x) tbl)"

text \<open>The \<^verbatim>\<open>facility\<close> relation of a user, loaded through \<^verbatim>\<open>facility_id\<close>.\<close>

definition facilityOf :: "DB \<Rightarrow> User \<Rightarrow> Facility option" where
  "facilityOf db u =
     (case u_facilityId u of
        None \<Rightarrow> None
      | Some fid \<Rightarrow> find (\<lambda>f. f_id f = fid) (facilities db))"

definition jwtPayloadOf :: "User \<Rightarrow> JwtPayload" where
  "jwtPayloadOf u =
     \<lparr>p_userId = u_id u, p_email = u_email u, p_role = roleString (u_role u),
      p_facilityId = u_facilityId u\<rparr>"

definition authResponse :: "User \<Rightarrow> Facility option \<Rightarrow> TokenPair \<Rightarrow> int \<Rightarrow> AuthResponse" where
  "authResponse u fac tokens expires =
     \<lparr>r_id = u_id u, r_email = u_email u, r_name = u_name u, r_role = u_role u,
      r_facilityId = u_facilityId u, r_facility = fac,
      r_token = accessToken tokens, r_refreshToken = refreshToken_of tokens,
      r_expiresAt = expires\<rparr>"

text \<open>
  \<^verbatim>\<open>saveRefreshToken\<close>: a new row with a generated primary key \<open>newId\<close>, the column
  defaults (\<^verbatim>\<open>is_revoked = false\<close>) and the expiry \<^verbatim>\<open>getRefreshTokenExpirationDate()\<close>,
  which throws before anything is stored when the configured span is malformed. The
  rows of this model carry valid dates only: what the ORM makes of an Invalid Date is
  not modelled, and the call stops there with \<open>InvalidDateValue\<close>. Every statement
  below that asserts a success assumes \<open>validLifetimes\<close>, which excludes that case.
\<close>

definition saveRefreshToken ::
  "JsRuntime \<Rightarrow> Env \<Rightarrow> string \<Rightarrow> string \<Rightarrow> string option \<Rightarrow> int \<Rightarrow> string
     \<Rightarrow> RefreshToken list \<Rightarrow> AuthError + RefreshToken list" where
  "saveRefreshToken J env tok uid clientIp now newId tbl =
     (case getRefreshTokenExpirationDate J env now of
        Inl e \<Rightarrow> Inl e
      | Inr None \<Rightarrow> Inl InvalidDateValue
      | Inr (Some expires) \<Rightarrow>
          Inr (tbl @ [\<lparr>rt_id = newId, token = tok, userId = uid, expiresAt = expires,
                        isRevoked = False, createdByIp = clientIp, revokedByIp = None,
                        revokedAt = None, createdAt = now\<rparr>]))"

text \<open>
  \<^verbatim>\<open>cleanupExpiredTokens(userId)\<close>: delete where
  \<^verbatim>\<open>userId = :userId AND (expiresAt < :now OR isRevoked = true)\<close>.
\<close>

definition cleanupExpiredTokens :: "string \<Rightarrow> int \<Rightarrow> RefreshToken list \<Rightarrow> RefreshToken list" where
  "cleanupExpiredTokens uid now tbl =
     filter (\<lambda>r. \<not> (userId r = uid \<and> (expiresAt r < now \<or> isRevoked r))) tbl"

text \<open>
  An operation returns its result, or the error it throws, together with the database
  as it stands at that moment: a throw after a write leaves the write in place.
\<close>

definition login ::
  "JsRuntime \<Rightarrow> JwtLib \<Rightarrow> PasswordService \<Rightarrow> Env \<Rightarrow> DB \<Rightarrow> string \<Rightarrow> string
     \<Rightarrow> string option \<Rightarrow> int \<Rightarrow> (nat \<Rightarrow> 8 word) \<Rightarrow> string \<Rightarrow> (AuthError + AuthResponse) \<times> DB" where
  "login J L P env db email pw clientIp now src newId =
     (case find (\<lambda>u. u_email u = toLowerCase J email \<and> u_isActive u) (users db) of
        None \<Rightarrow> (Inl InvalidEmailOrPassword, db)
      | Some found \<Rightarrow>
          if \<not> verifyPassword P pw (u_password found) then (Inl InvalidEmailOrPassword, db)
          else
            let user = found\<lparr>u_lastLogin := Some now\<rparr>;
                db1 = db\<lparr>users := saveUser user (users db)\<rparr>;
                tokens = generateTokenPair L env (jwtPayloadOf user) now src
            in case saveRefreshToken J env (refreshToken_of tokens) (u_id user) clientIp now newId
                      (refreshTokens db1) of
                 Inl e \<Rightarrow> (Inl e, db1)
               | Inr tbl \<Rightarrow>
                   let db2 = db1\<lparr>refreshTokens := cleanupExpiredTokens (u_id user) now tbl\<rparr>
                   in case accessExpiresAt J env now of
                        Inl e \<Rightarrow> (Inl e, db2)
                      | Inr expires \<Rightarrow>
                          (Inr (authResponse user (facilityOf db user) tokens expires), db2))"

text \<open>
  \<^verbatim>\<open>register\<close>: \<^verbatim>\<open>role\<close> defaults to doctor; \<^verbatim>\<open>if (facilityId)\<close> skips the facility
  check for a missing or empty id. \<open>newUserId\<close> and \<open>newId\<close> are the generated keys.
  The insert of the user is rejected by the foreign key \<^verbatim>\<open>facility_id\<close> when the id
  given names no facility row, which the check leaves possible for the empty id.
\<close>

definition register ::
  "JsRuntime \<Rightarrow> JwtLib \<Rightarrow> PasswordService \<Rightarrow> Env \<Rightarrow> DB \<Rightarrow> string \<Rightarrow> string \<Rightarrow> string
     \<Rightarrow> UserRole option \<Rightarrow> string option \<Rightarrow> int \<Rightarrow> (nat \<Rightarrow> 8 word) \<Rightarrow> string \<Rightarrow> string
     \<Rightarrow> (AuthError + AuthResponse) \<times> DB" where
  "register J L P env db email pw nm roleOpt facilityIdOpt now src newUserId newId =
     (let role = (case roleOpt of None \<Rightarrow> DOCTOR | Some r \<Rightarrow> r) in
      if find (\<lambda>u. u_email u = toLowerCase J email) (users db) \<noteq> None
      then (Inl UserAlreadyExists, db)
      else if \<not> validatePasswordStrength P pw then (Inl PasswordValidationFailed, db)
      else if (case facilityIdOpt of
                 None \<Rightarrow> False
               | Some fid \<Rightarrow> fid \<noteq> [] \<and>
                   find (\<lambda>f. f_id f = fid \<and> f_isActive f) (facilities db) = None)
      then (Inl InvalidFacilityId, db)
      else if (case facilityIdOpt of
                 None \<Rightarrow> False
               | Some fid \<Rightarrow> find (\<lambda>f. f_id f = fid) (facilities db) = None)
      then (Inl QueryFailedError, db)
      else
        let savedUser = \<lparr>u_id = newUserId, u_email = toLowerCase J email,
                         u_password = hashPassword P pw, u_name = nm, u_role = role,
                         u_facilityId = facilityIdOpt, u_isActive = True, u_lastLogin = None\<rparr>;
            db1 = db\<lparr>users := users db @ [savedUser]\<rparr>;
            userWithFacility = find (\<lambda>u. u_id u = u_id savedUser) (users db1);
            tokens = generateTokenPair L env (jwtPayloadOf savedUser) now src
        in case saveRefreshToken J env (refreshToken_of tokens) (u_id savedUser) None now newId
                  (refreshTokens db1) of
             Inl e \<Rightarrow> (Inl e, db1)
           | Inr tbl \<Rightarrow>
               let db2 = db1\<lparr>refreshTokens := tbl\<rparr>
               in case accessExpiresAt J env now of
                    Inl e \<Rightarrow> (Inl e, db2)
                  | Inr expires \<Rightarrow>
                      (Inr (authResponse savedUser
                              (case userWithFacility of None \<Rightarrow> None
                               | Some u \<Rightarrow> facilityOf db1 u) tokens expires), db2))"

text \<open>
  \<^verbatim>\<open>refreshToken\<close> (rotation). The row is looked up by token string among the rows that
  are not revoked; its \<^verbatim>\<open>user\<close> relation is loaded through \<^verbatim>\<open>user_id\<close>, and reading
  \<^verbatim>\<open>user.isActive\<close> of a missing user is a TypeError. The old row is revoked and saved
  before the new row is stored.
\<close>

definition refreshToken ::
  "JsRuntime \<Rightarrow> JwtLib \<Rightarrow> Env \<Rightarrow> DB \<Rightarrow> string \<Rightarrow> string option \<Rightarrow> int \<Rightarrow> (nat \<Rightarrow> 8 word)
     \<Rightarrow> string \<Rightarrow> (AuthError + AuthResponse) \<times> DB" where
  "refreshToken J L env db refreshTokenValue clientIp now src newId =
     (case find (\<lambda>r. token r = refreshTokenValue \<and> \<not> isRevoked r) (refreshTokens db) of
        None \<Rightarrow> (Inl InvalidOrExpiredRefreshToken, db)
      | Some rt \<Rightarrow>
          if \<not> isActive rt now then (Inl InvalidOrExpiredRefreshToken, db)
          else
            case find (\<lambda>u. u_id u = userId rt) (users db) of
              None \<Rightarrow> (Inl TypeError, db)
            | Some user \<Rightarrow>
                if \<not> u_isActive user then (Inl UserAccountDeactivated, db)
                else
                  let tokens = generateTokenPair L env (jwtPayloadOf user) now src;
                      db1 = db\<lparr>refreshTokens := saveToken (revoke rt clientIp now) (refreshTokens db)\<rparr>
                  in case saveRefreshToken J env (refreshToken_of tokens) (u_id user) clientIp now
                            newId (refreshTokens db1) of
                       Inl e \<Rightarrow> (Inl e, db1)
                     | Inr tbl \<Rightarrow>
                         let db2 = db1\<lparr>refreshTokens := tbl\<rparr>
                         in case accessExpiresAt J env now of
                              Inl e \<Rightarrow> (Inl e, db2)
                            | Inr expires \<Rightarrow>
                                (Inr (authResponse user (facilityOf db user) tokens expires), db2))"

text \<open>\<^verbatim>\<open>logout\<close>: revoke the row with that token string when there is one and it is not revoked yet.\<close>

definition logout :: "DB \<Rightarrow> string \<Rightarrow> string option \<Rightarrow> int \<Rightarrow> DB" where
  "logout db refreshTokenValue clientIp now =
     (case find (\<lambda>r. token r = refreshTokenValue) (refreshTokens db) of
        None \<Rightarrow> db
      | Some rt \<Rightarrow>
          if \<not> isRevoked rt
          then db\<lparr>refreshTokens := saveToken (revoke rt clientIp now) (refreshTokens db)\<rparr>
          else db)"

text \<open>\<^verbatim>\<open>logoutFromAllDevices\<close>: revoke and save every row of the user that is not revoked.\<close>

definition logoutFromAllDevices :: "DB \<Rightarrow> string \<Rightarrow> string option \<Rightarrow> int \<Rightarrow> DB" where
  "logoutFromAllDevices db uid clientIp now =
     (let found = filter (\<lambda>r. userId r = uid \<and> \<not> isRevoked r) (refreshTokens db);
          revoked = map (\<lambda>t. revoke t clientIp now) found
      in if length revoked > 0
         then db\<lparr>refreshTokens := foldl (\<lambda>tbl t. saveToken t tbl) (refreshTokens db) revoked\<rparr>
         else db)"

definition getUserById :: "DB \<Rightarrow> string \<Rightarrow> User option" where
  "getUserById db uid = find (\<lambda>u. u_id u = uid \<and> u_isActive u) (users db)"

subsection \<open>\<^verbatim>\<open>middleware/auth.ts\<close> of the ORM-based service: authenticateToken\<close>

fun errorMessage :: "AuthError \<Rightarrow> string" where
  "errorMessage InvalidEmailOrPassword = ''Invalid email or password''"
| "errorMessage UserAlreadyExists = ''User with this email already exists''"
| "errorMessage PasswordValidationFailed = ''Password validation failed''"
| "errorMessage InvalidFacilityId = ''Invalid facility ID''"
| "errorMessage InvalidOrExpiredRefreshToken = ''Invalid or expired refresh token''"
| "errorMessage UserAccountDeactivated = ''User account is deactivated''"
| "errorMessage AccessTokenExpired = ''Access token expired''"
| "errorMessage InvalidAccessToken = ''Invalid access token''"
| "errorMessage TokenVerificationFailed = ''Token verification failed''"
| "errorMessage InvalidExpirationFormat = ''Invalid expiration format''"
| "errorMessage TypeError = ''Cannot read properties of null''"
| "errorMessage RangeError = ''Invalid time value''"
| "errorMessage InvalidDateValue = ''Invalid Date''"
| "errorMessage QueryFailedError = ''FOREIGN KEY constraint failed''"

text \<open>\<^verbatim>\<open>String.prototype.includes\<close>: the second string occurs somewhere in the first.\<close>

definition includes_str :: "string \<Rightarrow> string \<Rightarrow> bool" where
  "includes_str s sub = list_ex (\<lambda>i. take (length sub) (drop i s) = sub) [0..<Suc (length s)]"

definition canAccessPatient :: "User \<Rightarrow> bool" where
  "canAccessPatient u = (u_role u \<in> set [DOCTOR, NURSE, ADMIN])"

definition canModifyPatient :: "User \<Rightarrow> bool" where
  "canModifyPatient u = (u_role u \<in> set [DOCTOR, ADMIN])"

definition isAdmin :: "User \<Rightarrow> bool" where
  "isAdmin u = (u_role u = ADMIN)"

record ReqUser =
  q_payload :: JwtPayload
  q_id :: string
  q_name :: string
  q_isActive :: bool
  q_canAccessPatient :: bool
  q_canModifyPatient :: bool
  q_isAdmin :: bool

datatype 'a Handled = Next 'a | Respond nat string

definition authenticateToken :: "JwtLib \<Rightarrow> Env \<Rightarrow> DB \<Rightarrow> int \<Rightarrow> string option \<Rightarrow> ReqUser Handled" where
  "authenticateToken L env db now authHeader =
     (case extractTokenFromHeader authHeader of
        None \<Rightarrow> Respond 401 ''Access token is required''
      | Some tok \<Rightarrow>
          if tok = [] then Respond 401 ''Access token is required''
          else
            case verifyAccessToken L env now tok of
              Inl e \<Rightarrow>
                Respond 401
                  (if includes_str (errorMessage e) ''expired'' then ''Access token has expired''
                   else if includes_str (errorMessage e) ''invalid'' then ''Invalid access token''
                   else ''Authentication failed'')
            | Inr payload \<Rightarrow>
                (case getUserById db (p_userId payload) of
                   None \<Rightarrow> Respond 401 ''Invalid or inactive user account''
                 | Some user \<Rightarrow>
                     if \<not> u_isActive user then Respond 401 ''Invalid or inactive user account''
                     else Next \<lparr>q_payload = payload, q_id = u_id user, q_name = u_name user,
                                q_isActive = u_isActive user,
                                q_canAccessPatient = canAccessPatient user,
                                q_canModifyPatient = canModifyPatient user,
                                q_isAdmin = isAdmin user\<rparr>))"

subsection \<open>The SQL-driven service: \<^verbatim>\<open>database/schema.sql\<close>, \<^verbatim>\<open>config/database.ts\<close>\<close>

text \<open>
  The \<^verbatim>\<open>refresh_tokens\<close> table of the schema has the columns \<^verbatim>\<open>id\<close>, \<^verbatim>\<open>user_id\<close>,
  \<^verbatim>\<open>token\<close> (unique), \<^verbatim>\<open>expires_at\<close> and \<^verbatim>\<open>created_at\<close>, and no revocation column.
  \<^verbatim>\<open>expires_at\<close> is written as the text \<^verbatim>\<open>expiresAt.toISOString()\<close> and compared with
  \<^verbatim>\<open>CURRENT_TIMESTAMP\<close> by the database; both are kept as text, compared as text.
\<close>

record SqlRefreshToken =
  srt_id :: string
  srt_user_id :: string
  srt_token :: string
  srt_expires_at :: string

record Patient =
  pat_id :: string
  pat_created_by :: string

record Visit =
  v_id :: string
  v_patient_id :: string
  v_doctor_id :: string

record SqlDb =
  refresh_tokens :: "SqlRefreshToken list"
  patients :: "Patient list"
  visits :: "Visit list"

text \<open>
  \<^verbatim>\<open>dbManager\<close>: \<^verbatim>\<open>getDatabase()\<close> throws while no connection is open, and a statement
  whose callback receives \<^verbatim>\<open>err\<close> rejects. \<open>Faulty\<close> is a connection on which the driver
  reports an error for the statement.
\<close>

datatype DbManager = NotConnected | Faulty string | Connected SqlDb

datatype 'a Promise = Resolved 'a | Rejected string

definition dbManager_get :: "DbManager \<Rightarrow> (SqlDb \<Rightarrow> 'a option) \<Rightarrow> 'a option Promise" where
  "dbManager_get mgr query =
     (case mgr of
        NotConnected \<Rightarrow> Rejected ''Database not connected. Call connect() first.''
      | Faulty err \<Rightarrow> Rejected err
      | Connected db \<Rightarrow> Resolved (query db))"

text \<open>\<^verbatim>\<open>dbManager.run\<close> resolves with the number of rows changed and the new contents.\<close>

definition dbManager_run :: "DbManager \<Rightarrow> (SqlDb \<Rightarrow> nat \<times> SqlDb) \<Rightarrow> (nat \<times> DbManager) Promise" where
  "dbManager_run mgr stmt =
     (case mgr of
        NotConnected \<Rightarrow> Rejected ''Database not connected. Call connect() first.''
      | Faulty err \<Rightarrow> Rejected err
      | Connected db \<Rightarrow> (case stmt db of (changes, db') \<Rightarrow> Resolved (changes, Connected db')))"

datatype AppError = AppError string nat | DatabaseError string

subsection \<open>\<^verbatim>\<open>services/auth.service.ts\<close>: the SQL-driven AuthService\<close>

record Config =
  JWT_SECRET :: string
  JWT_EXPIRES_IN :: string
  JWT_REFRESH_EXPIRES_IN :: string

text \<open>
  \<^verbatim>\<open>generateTokens\<close>: both tokens are \<^verbatim>\<open>jwt.sign\<close> of the same payload under the same
  secret, with different lifetimes. The refresh token is stored with an expiry thirty
  days ahead; the insert is rejected when the token string is already in the table
  (\<^verbatim>\<open>token TEXT UNIQUE\<close>). \<^verbatim>\<open>Date.prototype.toISOString\<close> is a parameter.
\<close>

definition generateTokens ::
  "JwtLib \<Rightarrow> Config \<Rightarrow> (int \<Rightarrow> string) \<Rightarrow> DbManager \<Rightarrow> string \<Rightarrow> string \<Rightarrow> string \<Rightarrow> int
     \<Rightarrow> string \<Rightarrow> (AppError + TokenPair) \<times> DbManager" where
  "generateTokens L cfg toISOString mgr uid email role now refreshTokenId =
     (let payload = \<lparr>p_userId = uid, p_email = email, p_role = role, p_facilityId = None\<rparr>;
          access = sign L payload (JWT_SECRET cfg)
                     \<lparr>expiresIn = JWT_EXPIRES_IN cfg, so_issuer = None, so_audience = None\<rparr> now;
          refresh = sign L payload (JWT_SECRET cfg)
                     \<lparr>expiresIn = JWT_REFRESH_EXPIRES_IN cfg, so_issuer = None, so_audience = None\<rparr> now;
          expiresAt = now + 30 * 86400000
      in case mgr of
           NotConnected \<Rightarrow> (Inl (DatabaseError ''Database not connected. Call connect() first.''), mgr)
         | Faulty err \<Rightarrow> (Inl (DatabaseError err), mgr)
         | Connected db \<Rightarrow>
             if refresh \<in> set (map srt_token (refresh_tokens db))
             then (Inl (DatabaseError ''UNIQUE constraint failed: refresh_tokens.token''), mgr)
             else
               (Inr \<lparr>accessToken = access, refreshToken_of = refresh\<rparr>,
                Connected (db\<lparr>refresh_tokens := refresh_tokens db @
                   [\<lparr>srt_id = refreshTokenId, srt_user_id = uid, srt_token = refresh,
                     srt_expires_at = toISOString expiresAt\<rparr>]\<rparr>)))"

text \<open>
  \<^verbatim>\<open>logout\<close> of the SQL-driven service:
  \<^verbatim>\<open>DELETE FROM refresh_tokens WHERE token = ?\<close>, and an error when nothing was deleted.
\<close>

definition logout_sql :: "DbManager \<Rightarrow> string \<Rightarrow> (AppError + unit) \<times> DbManager" where
  "logout_sql mgr refreshTokenValue =
     (case dbManager_run mgr (\<lambda>db.
              let kept = filter (\<lambda>r. srt_token r \<noteq> refreshTokenValue) (refresh_tokens db)
              in (length (refresh_tokens db) - length kept, db\<lparr>refresh_tokens := kept\<rparr>)) of
        Rejected err \<Rightarrow> (Inl (DatabaseError err), mgr)
      | Resolved (changes, mgr') \<Rightarrow>
          if changes = 0 then (Inl (AppError ''Invalid refresh token'' 401), mgr')
          else (Inr (), mgr'))"

text \<open>
  \<^verbatim>\<open>cleanExpiredTokens\<close>, which \<^verbatim>\<open>startCleanupInterval\<close> calls every hour:
  \<^verbatim>\<open>DELETE FROM refresh_tokens WHERE expires_at <= CURRENT_TIMESTAMP\<close>. An error is logged
  and swallowed. \<open>current_timestamp\<close> is the text the database produces for
  \<^verbatim>\<open>CURRENT_TIMESTAMP\<close>.
\<close>

definition cleanExpiredTokens :: "DbManager \<Rightarrow> string \<Rightarrow> DbManager" where
  "cleanExpiredTokens mgr current_timestamp =
     (case dbManager_run mgr (\<lambda>db.
              let kept = filter (\<lambda>r. \<not> srt_expires_at r \<le> current_timestamp) (refresh_tokens db)
              in (length (refresh_tokens db) - length kept, db\<lparr>refresh_tokens := kept\<rparr>)) of
        Rejected err \<Rightarrow> mgr
      | Resolved (changes, mgr') \<Rightarrow> mgr')"

subsection \<open>\<^verbatim>\<open>middleware/auth.ts\<close> of the SQL-driven service: authorizePatientAccess\<close>

record SqlReqUser =
  su_id :: string
  su_email :: string
  su_role :: string

record Request =
  req_user :: "SqlReqUser option"
  params_patientId :: "string option"
  body_patientId :: "string option"

text \<open>\<^verbatim>\<open>a || b\<close> on optional strings: \<^verbatim>\<open>undefined\<close> and the empty string are falsy.\<close>

definition orElse :: "string option \<Rightarrow> string option \<Rightarrow> string option" where
  "orElse a b = (case a of Some s \<Rightarrow> if s \<noteq> [] then a else b | None \<Rightarrow> b)"

datatype Decision = Proceed | NextError AppError

text \<open>
  The ownership query:
  \<^verbatim>\<open>SELECT 1 FROM patients p WHERE p.id = ? AND (p.created_by = ? OR EXISTS (SELECT 1 FROM visits v WHERE v.patient_id = p.id AND v.doctor_id = ?))\<close>.
\<close>

definition hasAccessQuery :: "string \<Rightarrow> string \<Rightarrow> SqlDb \<Rightarrow> Patient option" where
  "hasAccessQuery patientId uid db =
     find (\<lambda>p. pat_id p = patientId \<and>
               (pat_created_by p = uid \<or>
                list_ex (\<lambda>v. v_patient_id v = pat_id p \<and> v_doctor_id v = uid) (visits db)))
          (patients db)"

definition authorizePatientAccess :: "DbManager \<Rightarrow> Request \<Rightarrow> Decision" where
  "authorizePatientAccess mgr req =
     (case req_user req of
        None \<Rightarrow> NextError (AppError ''Authentication required'' 401)
      | Some user \<Rightarrow>
          (case orElse (params_patientId req) (body_patientId req) of
             None \<Rightarrow> NextError (AppError ''Patient ID is required'' 400)
           | Some patientId \<Rightarrow>
               if patientId = [] then NextError (AppError ''Patient ID is required'' 400)
               else if su_role user = ''admin'' then Proceed
               else
                 case dbManager_get mgr (hasAccessQuery patientId (su_id user)) of
                   Rejected err \<Rightarrow> NextError (DatabaseError err)
                 | Resolved None \<Rightarrow> NextError (AppError ''Access denied to patient data'' 403)
                 | Resolved (Some row) \<Rightarrow> Proceed))"

subsection \<open>Histories of service calls\<close>

text \<open>
  The calls that write the refresh-token table of the ORM-based service, with their
  arguments, clock readings, entropy and generated keys; a history is a list of calls
  applied in order.
\<close>

datatype Op =
    OpLogin string string "string option" int "nat \<Rightarrow> 8 word" string
  | OpRegister string string string "UserRole option" "string option" int "nat \<Rightarrow> 8 word" string string
  | OpRefresh string "string option" int "nat \<Rightarrow> 8 word" string
  | OpLogout string "string option" int
  | OpLogoutAll string "string option" int

fun applyOp :: "JsRuntime \<Rightarrow> JwtLib \<Rightarrow> PasswordService \<Rightarrow> Env \<Rightarrow> DB \<Rightarrow> Op \<Rightarrow> DB" where
  "applyOp J L P env db (OpLogin email pw ip now src newId) =
     snd (login J L P env db email pw ip now src newId)"
| "applyOp J L P env db (OpRegister email pw nm role fid now src newUserId newId) =
     snd (register J L P env db email pw nm role fid now src newUserId newId)"
| "applyOp J L P env db (OpRefresh v ip now src newId) =
     snd (refreshToken J L env db v ip now src newId)"
| "applyOp J L P env db (OpLogout v ip now) = logout db v ip now"
| "applyOp J L P env db (OpLogoutAll uid ip now) = logoutFromAllDevices db uid ip now"

text \<open>The refresh token a call generates, whether or not the call gets to store it.\<close>

fun issuedToken :: "Op \<Rightarrow> string option" where
  "issuedToken (OpLogin email pw ip now src newId) = Some (generateRefreshToken src)"
| "issuedToken (OpRegister email pw nm role fid now src newUserId newId) = Some (generateRefreshToken src)"
| "issuedToken (OpRefresh v ip now src newId) = Some (generateRefreshToken src)"
| "issuedToken (OpLogout v ip now) = None"
| "issuedToken (OpLogoutAll uid ip now) = None"

definition runOps ::
  "JsRuntime \<Rightarrow> JwtLib \<Rightarrow> PasswordService \<Rightarrow> Env \<Rightarrow> DB \<Rightarrow> Op list \<Rightarrow> DB" where
  "runOps J L P env db ops = foldl (applyOp J L P env) db ops"

text \<open>A token string is spent in a table when no unrevoked row carries it.\<close>

definition spent :: "string \<Rightarrow> RefreshToken list \<Rightarrow> bool" where
  "spent t tbl = (find (\<lambda>r. token r = t \<and> \<not> isRevoked r) tbl = None)"

subsection \<open>Sample data\<close>

text \<open>
  A small library instance and a small database, for evaluating the operations at
  concrete inputs. The sample \<^verbatim>\<open>verify\<close> accepts one token until its expiry, throws a
  non-JWT exception for one token whose payload segment is not JSON, and rejects the rest.
\<close>

definition sampleLib :: JwtLib where
  "sampleLib =
     \<lparr>encodeHeader = ''eyJhbGciOiJIUzI1NiJ9'',
      encodePayload = (\<lambda>c. p_userId (c_payload c)),
      computeSignature = (\<lambda>secret input. ''sig''),
      timespan = (\<lambda>s. 86400),
      verify = (\<lambda>tok secret opts now.
        if tok = ''eyJhbGciOiJIUzI1NiJ9.u1.sig''
        then (if now div 1000 < 86400
              then Returned \<lparr>p_userId = ''u1'', p_email = ''amina@afyatrack.com'',
                             p_role = ''doctor'', p_facilityId = None\<rparr>
              else Threw TokenExpiredError)
        else if tok = ''eyJ0eXAiOiJKV1QifQ.bm90IGpzb24.x'' then Threw OtherError
        else Threw JsonWebTokenError)\<rparr>"

text \<open>
  The sample runtime lower-cases the ASCII letters, which is what
  \<^verbatim>\<open>String.prototype.toLowerCase\<close> does on ASCII strings, and moves dates in plain
  milliseconds within the range of valid time values.
\<close>

definition asciiLowerChar :: "char \<Rightarrow> char" where
  "asciiLowerChar c =
     (let n = (of_char c :: nat) in if 65 \<le> n \<and> n \<le> 90 then char_of (n + 32) else c)"

definition timeClip :: "int \<Rightarrow> int option" where
  "timeClip t = (if - 8640000000000000 \<le> t \<and> t \<le> 8640000000000000 then Some t else None)"

definition sampleRuntime :: JsRuntime where
  "sampleRuntime =
     \<lparr>toLowerCase = map asciiLowerChar,
      plusSeconds = (\<lambda>d n. timeClip (d + int n * 1000)),
      plusMinutes = (\<lambda>d n. timeClip (d + int n * 60000)),
      plusHours = (\<lambda>d n. timeClip (d + int n * 3600000)),
      plusDays = (\<lambda>d n. timeClip (d + int n * 86400000))\<rparr>"

definition samplePasswords :: PasswordService where
  "samplePasswords =
     \<lparr>verifyPassword = (\<lambda>pw hash. hash = ''hash:'' @ pw),
      hashPassword = (\<lambda>pw. ''hash:'' @ pw),
      validatePasswordStrength = (\<lambda>pw. 8 \<le> length pw)\<rparr>"

definition sampleEnv :: Env where
  "sampleEnv = \<lparr>ACCESS_TOKEN_SECRET = ''your-secret-key'', ACCESS_TOKEN_EXPIRES_IN = ''24h'',
                 REFRESH_TOKEN_EXPIRES_IN = ''7d''\<rparr>"

definition sampleUser :: User where
  "sampleUser = \<lparr>u_id = ''u1'', u_email = ''amina@afyatrack.com'', u_password = ''hash:Afya123!'',
                  u_name = ''Amina'', u_role = DOCTOR, u_facilityId = None, u_isActive = True,
                  u_lastLogin = None\<rparr>"

definition sampleRow :: RefreshToken where
  "sampleRow = \<lparr>rt_id = ''r1'', token = ''c0ffee'', userId = ''u1'', expiresAt = 1000,
                 isRevoked = False, createdByIp = None, revokedByIp = None, revokedAt = None,
                 createdAt = 0\<rparr>"

definition sampleDb :: DB where
  "sampleDb = \<lparr>users = [sampleUser], refreshTokens = [sampleRow], facilities = []\<rparr>"

definition sampleConfig :: Config where
  "sampleConfig = \<lparr>JWT_SECRET = ''secret'', JWT_EXPIRES_IN = ''24h'', JWT_REFRESH_EXPIRES_IN = ''30d''\<rparr>"

definition sampleToISOString :: "int \<Rightarrow> string" where
  "sampleToISOString t = ''1970-01-31T00:00:00.000Z''"

definition sampleSqlDb :: SqlDb where
  "sampleSqlDb =
     \<lparr>refresh_tokens = [\<lparr>srt_id = ''s1'', srt_user_id = ''u1'',
                          srt_token = ''eyJhbGciOiJIUzI1NiJ9.u1.sig'',
                          srt_expires_at = ''1970-01-31T00:00:00.000Z''\<rparr>],
      patients = [\<lparr>pat_id = ''p1'', pat_created_by = ''u1''\<rparr>,
                  \<lparr>pat_id = ''p2'', pat_created_by = ''u9''\<rparr>],
      visits = [\<lparr>v_id = ''v1'', v_patient_id = ''p2'', v_doctor_id = ''u2''\<rparr>]\<rparr>"

definition sampleSweepDb :: SqlDb where
  "sampleSweepDb =
     \<lparr>refresh_tokens = [\<lparr>srt_id = ''s1'', srt_user_id = ''u1'',
                          srt_token = ''eyJhbGciOiJIUzI1NiJ9.u1.sig'',
                          srt_expires_at = ''2025-01-01T10:00:00.000Z''\<rparr>],
      patients = [], visits = []\<rparr>"

definition sampleEntropy :: "nat \<Rightarrow> 8 word" where
  "sampleEntropy i = 0"

definition sampleDeactivatedDb :: DB where
  "sampleDeactivatedDb =
     \<lparr>users = [sampleUser\<lparr>u_isActive := False\<rparr>], refreshTokens = [sampleRow], facilities = []\<rparr>"

definition sampleNewRow :: RefreshToken where
  "sampleNewRow = \<lparr>rt_id = ''r2'', token = generateRefreshToken (\<lambda>i. 0), userId = ''u1'',
                    expiresAt = 604800005, isRevoked = False, createdByIp = None,
                    revokedByIp = None, revokedAt = None, createdAt = 5\<rparr>"

definition sampleRequest :: "string \<Rightarrow> string \<Rightarrow> string \<Rightarrow> Request" where
  "sampleRequest uid role pid =
     \<lparr>req_user = Some \<lparr>su_id = uid, su_email = uid @ ''@afyatrack.com'', su_role = role\<rparr>,
      params_patientId = Some pid, body_patientId = None\<rparr>"

section \<open>Properties\<close>

subsection \<open>Auxiliary facts\<close>

lemma getTokenExpirationDate_error:
  "getTokenExpirationDate J s n = Inl e \<Longrightarrow> e = InvalidExpirationFormat"
  by (auto simp: getTokenExpirationDate_def Let_def split: option.splits prod.splits if_splits)

lemma accessExpiresAt_error:
  "accessExpiresAt J env now = Inl e \<Longrightarrow> e = InvalidExpirationFormat \<or> e = RangeError"
  by (auto simp: accessExpiresAt_def dest: getTokenExpirationDate_error
      split: sum.splits option.splits)

lemma saveRefreshToken_error:
  "saveRefreshToken J env tok uid ip now nid tbl = Inl e
   \<Longrightarrow> e = InvalidExpirationFormat \<or> e = InvalidDateValue"
  by (auto simp: saveRefreshToken_def getRefreshTokenExpirationDate_def
      dest: getTokenExpirationDate_error split: sum.splits option.splits)

text \<open>Rotation throws its token error exactly when the lookup or the activity test fails.\<close>

lemma refreshToken_invalid_iff:
  "fst (refreshToken J L env db v ip now src nid) = Inl InvalidOrExpiredRefreshToken \<longleftrightarrow>
   (case find (\<lambda>r. token r = v \<and> \<not> isRevoked r) (refreshTokens db) of
      None \<Rightarrow> True | Some rt \<Rightarrow> \<not> isActive rt now)"
  by (auto simp: refreshToken_def Let_def
      dest!: accessExpiresAt_error saveRefreshToken_error
      split: option.splits sum.splits)

lemma find_unique_token:
  "distinct (map token tbl) \<Longrightarrow> r \<in> set tbl \<Longrightarrow>
   find (\<lambda>x. token x = token r \<and> \<not> isRevoked x) tbl = (if isRevoked r then None else Some r)"
  by (induction tbl) (auto simp: find_None_iff image_iff)

lemma spent_iff: "spent t tbl \<longleftrightarrow> (\<forall>r\<in>set tbl. token r = t \<longrightarrow> isRevoked r)"
  by (auto simp: spent_def find_None_iff)

lemma spent_saveToken:
  "spent t tbl \<Longrightarrow> isRevoked x \<Longrightarrow> spent t (saveToken x tbl)"
  by (auto simp: spent_iff saveToken_def)

lemma spent_saveRefreshToken:
  "saveRefreshToken J env tok uid ip now nid tbl = Inr tbl' \<Longrightarrow> tok \<noteq> t \<Longrightarrow> spent t tbl
   \<Longrightarrow> spent t tbl'"
  by (auto simp: spent_iff saveRefreshToken_def split: sum.splits option.splits)

lemma spent_cleanup: "spent t tbl \<Longrightarrow> spent t (cleanupExpiredTokens uid now tbl)"
  by (auto simp: spent_iff cleanupExpiredTokens_def)

lemma spent_foldl_saveToken:
  "spent t tbl \<Longrightarrow> list_all isRevoked xs \<Longrightarrow> spent t (foldl (\<lambda>tbl x. saveToken x tbl) tbl xs)"
  by (induction xs arbitrary: tbl) (auto simp: spent_saveToken)

lemma isRevoked_revoke: "isRevoked (revoke x ip now)"
  by (simp add: revoke_def)

lemma refreshToken_of_pair [simp]:
  "refreshToken_of (generateTokenPair L env p now src) = generateRefreshToken src"
  by (simp add: generateTokenPair_def)

lemma spent_login:
  "spent t (refreshTokens db) \<Longrightarrow> generateRefreshToken src \<noteq> t
   \<Longrightarrow> spent t (refreshTokens (snd (login J L P env db email pw ip now src nid)))"
  by (auto simp: login_def Let_def spent_cleanup
      dest: spent_saveRefreshToken split: option.splits sum.splits)

lemma spent_register:
  "spent t (refreshTokens db) \<Longrightarrow> generateRefreshToken src \<noteq> t
   \<Longrightarrow> spent t (refreshTokens (snd (register J L P env db email pw nm role fid now src nuid nid)))"
  by (auto simp: register_def Let_def
      dest: spent_saveRefreshToken split: option.splits sum.splits)

lemma spent_refreshToken:
  "spent t (refreshTokens db) \<Longrightarrow> generateRefreshToken src \<noteq> t
   \<Longrightarrow> spent t (refreshTokens (snd (refreshToken J L env db v ip now src nid)))"
  by (auto simp: refreshToken_def Let_def spent_saveToken isRevoked_revoke
      dest!: spent_saveRefreshToken split: option.splits sum.splits)

lemma spent_logout: "spent t (refreshTokens db) \<Longrightarrow> spent t (refreshTokens (logout db v ip now))"
  by (auto simp: logout_def spent_saveToken isRevoked_revoke split: option.splits)

lemma spent_logoutAll:
  "spent t (refreshTokens db) \<Longrightarrow> spent t (refreshTokens (logoutFromAllDevices db uid ip now))"
  by (auto simp: logoutFromAllDevices_def Let_def list_all_iff isRevoked_revoke
      intro!: spent_foldl_saveToken)

lemma spent_applyOp:
  "spent t (refreshTokens db) \<Longrightarrow> issuedToken op \<noteq> Some t
   \<Longrightarrow> spent t (refreshTokens (applyOp J L P env db op))"
  by (cases op) (simp_all add: spent_login spent_register spent_refreshToken spent_logout spent_logoutAll)

lemma spent_runOps:
  "spent t (refreshTokens db) \<Longrightarrow> list_all (\<lambda>op. issuedToken op \<noteq> Some t) ops
   \<Longrightarrow> spent t (refreshTokens (runOps J L P env db ops))"
  unfolding runOps_def
  by (induction ops arbitrary: db) (auto simp: spent_applyOp)

lemma refreshToken_success:
  assumes "refreshToken J L env db v ip now src nid = (Inr resp, db')"
  shows "\<exists>rt user expires.
           find (\<lambda>r. token r = v \<and> \<not> isRevoked r) (refreshTokens db) = Some rt \<and>
           isActive rt now \<and>
           find (\<lambda>u. u_id u = userId rt) (users db) = Some user \<and> u_isActive user \<and>
           getRefreshTokenExpirationDate J env now = Inr (Some expires) \<and>
           refreshTokens db' =
             saveToken (revoke rt ip now) (refreshTokens db) @
               [\<lparr>rt_id = nid, token = generateRefreshToken src, userId = u_id user,
                 expiresAt = expires, isRevoked = False, createdByIp = ip, revokedByIp = None,
                 revokedAt = None, createdAt = now\<rparr>] \<and>
           users db' = users db \<and> facilities db' = facilities db \<and>
           r_refreshToken resp = generateRefreshToken src \<and> r_id resp = u_id user"
  using assms
  by (auto simp: refreshToken_def Let_def saveRefreshToken_def authResponse_def
      split: option.splits sum.splits if_splits)

lemma saveToken_revoke:
  "rt \<in> set tbl \<Longrightarrow>
   saveToken (revoke rt ip now) tbl = map (\<lambda>r. if rt_id r = rt_id rt then revoke rt ip now else r) tbl"
  by (auto simp: saveToken_def find_None_iff revoke_def)

lemma find_Some_set: "find P xs = Some x \<Longrightarrow> x \<in> set xs \<and> P x"
  by (auto simp: find_Some_iff)

lemma spent_after_rotation:
  assumes ok: "refreshToken J L env db t ip now src nid = (Inr resp, db')"
    and uniq: "distinct (map token (refreshTokens db))"
    and fresh: "generateRefreshToken src \<noteq> t"
  shows "spent t (refreshTokens db')"
proof -
  from refreshToken_success [OF ok] obtain rt and user :: User and expires where
    f: "find (\<lambda>r. token r = t \<and> \<not> isRevoked r) (refreshTokens db) = Some rt"
    and tbl: "refreshTokens db' =
             saveToken (revoke rt ip now) (refreshTokens db) @
               [\<lparr>rt_id = nid, token = generateRefreshToken src, userId = u_id user,
                 expiresAt = expires, isRevoked = False, createdByIp = ip, revokedByIp = None,
                 revokedAt = None, createdAt = now\<rparr>]"
    by blast
  from f have rt: "rt \<in> set (refreshTokens db)" "token rt = t"
    by (auto dest: find_Some_set)
  have inj: "\<And>r. r \<in> set (refreshTokens db) \<Longrightarrow> token r = t \<Longrightarrow> r = rt"
    using uniq rt by (auto simp: distinct_map dest: inj_onD)
  have sv: "saveToken (revoke rt ip now) (refreshTokens db)
        = map (\<lambda>r. if rt_id r = rt_id rt then revoke rt ip now else r) (refreshTokens db)"
    using rt(1) by (rule saveToken_revoke)
  show ?thesis
    unfolding spent_iff tbl sv using fresh inj by (auto simp: revoke_def)
qed

lemma length_toHex: "length (toHex bs) = 2 * length bs"
  by (induction bs) (simp_all add: toHex_def hexByte_def)

lemma length_generateRefreshToken: "length (generateRefreshToken src) = 128"
  by (simp add: generateRefreshToken_def length_toHex randomBytes_def)

lemma generateRefreshToken_neq_short: "length t \<noteq> 128 \<Longrightarrow> generateRefreshToken src \<noteq> t"
  using length_generateRefreshToken by blast

lemma sampleRuntime_plus:
  "plusSeconds sampleRuntime d n = timeClip (d + int n * 1000)"
  "plusMinutes sampleRuntime d n = timeClip (d + int n * 60000)"
  "plusHours sampleRuntime d n = timeClip (d + int n * 3600000)"
  "plusDays sampleRuntime d n = timeClip (d + int n * 86400000)"
  by (simp_all add: sampleRuntime_def)

lemma sample_rotation:
  "\<exists>resp db'. refreshToken sampleRuntime sampleLib sampleEnv sampleDb ''c0ffee'' None 5 (\<lambda>i. 0) ''r2'' = (Inr resp, db')"
  by (simp add: refreshToken_def sampleDb_def sampleRow_def sampleUser_def sampleEnv_def isActive_def
      saveRefreshToken_def getRefreshTokenExpirationDate_def getTokenExpirationDate_def
      accessExpiresAt_def sampleRuntime_plus timeClip_def matchExpiresIn_def isDigit_def Let_def
      parseInt10_def digitVal_def)

lemma find_token_unique:
  "distinct (map token tbl) \<Longrightarrow>
   find (\<lambda>r. token r = v \<and> \<not> isRevoked r) tbl =
     (case find (\<lambda>r. token r = v) tbl of
        None \<Rightarrow> None | Some r \<Rightarrow> if isRevoked r then None else Some r)"
proof (induction tbl)
  case Nil
  then show ?case by simp
next
  case (Cons a tbl)
  show ?case
  proof (cases "token a = v")
    case True
    with Cons.prems have "\<forall>x\<in>set tbl. token x \<noteq> v" by (auto simp: image_iff)
    then have "find (\<lambda>r. token r = v) tbl = None"
      and "find (\<lambda>r. token r = v \<and> \<not> isRevoked r) tbl = None"
      by (auto simp: find_None_iff)
    with True show ?thesis by simp
  next
    case False
    with Cons show ?thesis by simp
  qed
qed

lemma find_map_revoke:
  "find (\<lambda>r. token r = v) tbl = Some rt \<Longrightarrow>
   find (\<lambda>r. token r = v)
     (map (\<lambda>r. if rt_id r = rt_id rt then revoke rt ip now else r) tbl) = Some (revoke rt ip now)"
  by (induction tbl) (auto simp: revoke_def split: if_splits)

text \<open>After a logout that revokes, the first row with that token string is the revoked one.\<close>

lemma logout_revoking:
  assumes "find (\<lambda>r. token r = v) (refreshTokens db) = Some rt" and "\<not> isRevoked rt"
  shows "find (\<lambda>r. token r = v) (refreshTokens (logout db v ip now)) = Some (revoke rt ip now)"
proof -
  from assms(1) have "rt \<in> set (refreshTokens db)"
    by (auto dest: find_Some_set)
  then have sv: "saveToken (revoke rt ip now) (refreshTokens db)
      = map (\<lambda>r. if rt_id r = rt_id rt then revoke rt ip now else r) (refreshTokens db)"
    by (rule saveToken_revoke)
  have "logout db v ip now = db\<lparr>refreshTokens := saveToken (revoke rt ip now) (refreshTokens db)\<rparr>"
    using assms by (simp add: logout_def)
  then show ?thesis
    using find_map_revoke [OF assms(1)] by (simp add: sv)
qed

lemma logout_twice: "logout (logout db v ip now) v ip' now' = logout db v ip now"
proof (cases "find (\<lambda>r. token r = v) (refreshTokens db)")
  case None
  then show ?thesis by (simp add: logout_def)
next
  case (Some rt)
  show ?thesis
  proof (cases "isRevoked rt")
    case True
    with Some show ?thesis by (simp add: logout_def)
  next
    case False
    with Some have "find (\<lambda>r. token r = v) (refreshTokens (logout db v ip now))
                      = Some (revoke rt ip now)"
      by (rule logout_revoking)
    then show ?thesis
      by (simp add: logout_def [of "logout db v ip now"] isRevoked_revoke)
  qed
qed

lemma logout_first_row_revoked:
  "case find (\<lambda>r. token r = v) (refreshTokens (logout db v ip now)) of
     None \<Rightarrow> True | Some r \<Rightarrow> isRevoked r"
proof (cases "find (\<lambda>r. token r = v) (refreshTokens db)")
  case None
  then show ?thesis by (simp add: logout_def)
next
  case (Some rt)
  show ?thesis
  proof (cases "isRevoked rt")
    case True
    with Some show ?thesis by (simp add: logout_def)
  next
    case False
    with Some have "find (\<lambda>r. token r = v) (refreshTokens (logout db v ip now))
                      = Some (revoke rt ip now)"
      by (rule logout_revoking)
    then show ?thesis
      by (simp add: isRevoked_revoke)
  qed
qed

lemma logout_sql_state_twice:
  "snd (logout_sql (snd (logout_sql mgr v)) v) = snd (logout_sql mgr v)"
  by (cases mgr) (auto simp: logout_sql_def dbManager_run_def Let_def)

lemma logout_sql_second_fails:
  "isl (fst (logout_sql (snd (logout_sql mgr v)) v))"
  by (cases mgr) (auto simp: logout_sql_def dbManager_run_def Let_def)

lemma logout_sql_second_message:
  "mgr = Connected db \<Longrightarrow>
   fst (logout_sql (snd (logout_sql mgr v)) v) = Inl (AppError ''Invalid refresh token'' 401)"
  by (auto simp: logout_sql_def dbManager_run_def Let_def)

lemma hexByte_digits: "list_all (\<lambda>c. c \<in> set hexDigits) (hexByte b)"
proof -
  have "unat b < 256" using unsigned_less [of b] by simp
  then have "unat b div 16 < length hexDigits" and "unat b mod 16 < length hexDigits"
    by (simp_all add: hexDigits_def less_mult_imp_div_less)
  then show ?thesis
    by (simp add: hexByte_def)
qed

lemma toHex_digits: "list_all (\<lambda>c. c \<in> set hexDigits) (toHex bs)"
  by (induction bs) (simp_all add: toHex_def hexByte_digits)

lemma generateRefreshToken_digits: "list_all (\<lambda>c. c \<in> set hexDigits) (generateRefreshToken src)"
  by (simp add: generateRefreshToken_def toHex_digits)

lemma login_token:
  "fst (login J L P env db email pw ip now src nid) = Inr resp
   \<Longrightarrow> r_refreshToken resp = generateRefreshToken src"
  by (auto simp: login_def Let_def authResponse_def split: option.splits sum.splits if_splits)

lemma register_token:
  "fst (register J L P env db email pw nm role fid now src nuid nid) = Inr resp
   \<Longrightarrow> r_refreshToken resp = generateRefreshToken src"
  by (auto simp: register_def Let_def authResponse_def split: option.splits sum.splits if_splits)

lemma rotation_token:
  "fst (refreshToken J L env db v ip now src nid) = Inr resp
   \<Longrightarrow> r_refreshToken resp = generateRefreshToken src"
  by (auto simp: refreshToken_def Let_def authResponse_def split: option.splits sum.splits if_splits)

lemma sign_has_dot: "CHR ''.'' \<in> set (sign L payload secret opts now)"
  by (simp add: sign_def Let_def)

lemma sign_not_hex: "\<not> list_all (\<lambda>c. c \<in> set hexDigits) (sign L payload secret opts now)"
proof -
  have "CHR ''.'' \<notin> set hexDigits" by (simp add: hexDigits_def)
  then show ?thesis using sign_has_dot [of L payload secret opts now]
    by (auto simp: list_all_iff)
qed

lemma generateTokens_token:
  "fst (generateTokens L cfg toISO mgr uid email role now rid) = Inr pair
   \<Longrightarrow> refreshToken_of pair =
        sign L \<lparr>p_userId = uid, p_email = email, p_role = role, p_facilityId = None\<rparr> (JWT_SECRET cfg)
          \<lparr>expiresIn = JWT_REFRESH_EXPIRES_IN cfg, so_issuer = None, so_audience = None\<rparr> now"
  by (auto simp: generateTokens_def Let_def split: DbManager.splits if_splits)

lemma lower_amina: "toLowerCase sampleRuntime ''Amina@AfyaTrack.com'' = ''amina@afyatrack.com''"
  by code_simp

lemma lower_baraka: "toLowerCase sampleRuntime ''Baraka@AfyaTrack.com'' = ''baraka@afyatrack.com''"
  by code_simp

lemma sample_login:
  "\<exists>resp db'. login sampleRuntime sampleLib samplePasswords sampleEnv sampleDb ''Amina@AfyaTrack.com'' ''Afya123!''
      None 5 (\<lambda>i. 0) ''r2'' = (Inr resp, db')"
  by (simp add: login_def sampleDb_def sampleUser_def samplePasswords_def lower_amina
      sampleEnv_def saveRefreshToken_def getRefreshTokenExpirationDate_def getTokenExpirationDate_def
      accessExpiresAt_def sampleRuntime_plus timeClip_def matchExpiresIn_def isDigit_def Let_def
      parseInt10_def digitVal_def)

lemma sample_register:
  "\<exists>resp db'. register sampleRuntime sampleLib samplePasswords sampleEnv sampleDb ''Baraka@AfyaTrack.com'' ''Afya123!''
      ''Baraka'' None None 5 (\<lambda>i. 0) ''u2'' ''r2'' = (Inr resp, db')"
  by (simp add: register_def sampleDb_def sampleUser_def samplePasswords_def lower_baraka
      sampleEnv_def saveRefreshToken_def getRefreshTokenExpirationDate_def getTokenExpirationDate_def
      accessExpiresAt_def sampleRuntime_plus timeClip_def matchExpiresIn_def isDigit_def Let_def
      parseInt10_def digitVal_def)

lemma login_success:
  assumes "login J L P env db email pw ip now src nid = (Inr resp, db')"
  shows "\<exists>found expires.
           find (\<lambda>u. u_email u = toLowerCase J email \<and> u_isActive u) (users db) = Some found \<and>
           verifyPassword P pw (u_password found) \<and>
           getRefreshTokenExpirationDate J env now = Inr (Some expires) \<and>
           users db' = saveUser (found\<lparr>u_lastLogin := Some now\<rparr>) (users db) \<and>
           refreshTokens db' =
             cleanupExpiredTokens (u_id found) now
               (refreshTokens db @
                [\<lparr>rt_id = nid, token = generateRefreshToken src, userId = u_id found,
                  expiresAt = expires, isRevoked = False, createdByIp = ip, revokedByIp = None,
                  revokedAt = None, createdAt = now\<rparr>]) \<and>
           r_id resp = u_id found \<and> r_email resp = u_email found"
  using assms
  by (auto simp: login_def Let_def saveRefreshToken_def authResponse_def
      split: option.splits sum.splits if_splits)

lemma cleanExpiredTokens_connected:
  "cleanExpiredTokens (Connected sdb) ct =
     Connected (sdb\<lparr>refresh_tokens := filter (\<lambda>r. ct < srt_expires_at r) (refresh_tokens sdb)\<rparr>)"
  by (simp add: cleanExpiredTokens_def dbManager_run_def Let_def not_le)

lemma sample_login_value:
  "login sampleRuntime sampleLib samplePasswords sampleEnv sampleDb ''Amina@AfyaTrack.com'' ''Afya123!''
      None 5 (\<lambda>i. 0) ''r2''
   = (Inr \<lparr>r_id = ''u1'', r_email = ''amina@afyatrack.com'', r_name = ''Amina'', r_role = DOCTOR,
           r_facilityId = None, r_facility = None,
           r_token = ''eyJhbGciOiJIUzI1NiJ9.u1.sig'',
           r_refreshToken = generateRefreshToken (\<lambda>i. 0), r_expiresAt = 86400005\<rparr>,
      \<lparr>users = [sampleUser\<lparr>u_lastLogin := Some 5\<rparr>],
       refreshTokens = [sampleRow, sampleNewRow], facilities = []\<rparr>)"
  by (simp add: login_def sampleDb_def sampleUser_def samplePasswords_def lower_amina
      sampleEnv_def saveRefreshToken_def getRefreshTokenExpirationDate_def getTokenExpirationDate_def
      accessExpiresAt_def sampleRuntime_plus timeClip_def matchExpiresIn_def isDigit_def Let_def
      parseInt10_def digitVal_def generateTokenPair_def generateAccessToken_def sign_def
      sampleLib_def authResponse_def jwtPayloadOf_def cleanupExpiredTokens_def saveUser_def
      facilityOf_def sampleRow_def sampleNewRow_def parseInt10_def digitVal_def)

lemma authenticateToken_users_only:
  "users db' = users db \<Longrightarrow> authenticateToken L env db' now hdr = authenticateToken L env db now hdr"
proof -
  assume "users db' = users db"
  then have "getUserById db' = getUserById db"
    by (simp add: getUserById_def fun_eq_iff)
  then show ?thesis
    by (simp only: authenticateToken_def)
qed

lemma users_logout: "users (logout db v ip t) = users db"
  by (simp add: logout_def split: option.splits)

lemma users_logoutAll: "users (logoutFromAllDevices db uid ip t) = users db"
  by (simp add: logoutFromAllDevices_def Let_def)

lemma users_refreshToken: "users (snd (refreshToken J L env db v ip t src nid)) = users db"
  by (simp add: refreshToken_def Let_def split: option.split sum.split)

lemma spent_after_logout:
  assumes "distinct (map token (refreshTokens db))"
  shows "spent v (refreshTokens (logout db v ip t))"
proof (cases "find (\<lambda>r. token r = v) (refreshTokens db)")
  case None
  then have "\<forall>r\<in>set (refreshTokens db). token r \<noteq> v"
    by (simp add: find_None_iff)
  with None show ?thesis
    by (simp add: logout_def spent_iff)
next
  case (Some rt)
  then have rt: "rt \<in> set (refreshTokens db)" "token rt = v"
    by (auto dest: find_Some_set)
  have inj: "\<And>r. r \<in> set (refreshTokens db) \<Longrightarrow> token r = v \<Longrightarrow> r = rt"
    using assms rt by (auto simp: distinct_map dest: inj_onD)
  show ?thesis
  proof (cases "isRevoked rt")
    case True
    with Some inj show ?thesis
      by (auto simp: logout_def spent_iff)
  next
    case False
    have sv: "saveToken (revoke rt ip t) (refreshTokens db)
        = map (\<lambda>r. if rt_id r = rt_id rt then revoke rt ip t else r) (refreshTokens db)"
      using rt(1) by (rule saveToken_revoke)
    have lo: "refreshTokens (logout db v ip t)
        = map (\<lambda>r. if rt_id r = rt_id rt then revoke rt ip t else r) (refreshTokens db)"
      using Some False by (simp add: logout_def sv)
    have "\<forall>x\<in>set (map (\<lambda>r. if rt_id r = rt_id rt then revoke rt ip t else r) (refreshTokens db)).
            token x = v \<longrightarrow> isRevoked x"
    proof (intro ballI impI)
      fix x
      assume "x \<in> set (map (\<lambda>r. if rt_id r = rt_id rt then revoke rt ip t else r) (refreshTokens db))"
        and tx: "token x = v"
      then obtain r where r: "r \<in> set (refreshTokens db)"
        and x: "x = (if rt_id r = rt_id rt then revoke rt ip t else r)"
        by auto
      show "isRevoked x"
      proof (cases "rt_id r = rt_id rt")
        case True
        with x show ?thesis by (simp add: revoke_def)
      next
        case False
        with x have "x = r" by simp
        with tx r inj have "r = rt" by blast
        with False show ?thesis by simp
      qed
    qed
    then show ?thesis
      by (simp only: spent_iff lo)
  qed
qed


lemma sample_login_snd:
  "snd (login sampleRuntime sampleLib samplePasswords sampleEnv sampleDb ''Amina@AfyaTrack.com'' ''Afya123!''
      None 5 (\<lambda>i. 0) ''r2'')
   = \<lparr>users = [sampleUser\<lparr>u_lastLogin := Some 5\<rparr>],
      refreshTokens = [sampleRow, sampleNewRow], facilities = []\<rparr>"
  by (simp add: sample_login_value)

lemma hasAccessQuery_Some_iff:
  "(\<exists>row. hasAccessQuery pid uid sdb = Some row) \<longleftrightarrow>
   (\<exists>p\<in>set (patients sdb). pat_id p = pid \<and>
      (pat_created_by p = uid \<or>
       (\<exists>v\<in>set (visits sdb). v_patient_id v = pid \<and> v_doctor_id v = uid)))"
proof -
  have "(\<exists>row. hasAccessQuery pid uid sdb = Some row) \<longleftrightarrow> hasAccessQuery pid uid sdb \<noteq> None"
    by auto
  also have "\<dots> \<longleftrightarrow> (\<exists>p\<in>set (patients sdb). pat_id p = pid \<and>
      (pat_created_by p = uid \<or>
       (\<exists>v\<in>set (visits sdb). v_patient_id v = pid \<and> v_doctor_id v = uid)))"
    unfolding hasAccessQuery_def find_None_iff list_ex_iff by auto
  finally show ?thesis .
qed

lemma validLifetimes_dates:
  assumes "validLifetimes J env now"
  shows "\<exists>a b. getTokenExpirationDate J (ACCESS_TOKEN_EXPIRES_IN env) now = Inr (Some a) \<and>
               getRefreshTokenExpirationDate J env now = Inr (Some b)"
  using assms by (auto simp: validLifetimes_def split: sum.splits option.splits)

lemma refreshToken_ok:
  assumes "find (\<lambda>r. token r = v \<and> \<not> isRevoked r) (refreshTokens db) = Some rt"
    and "isActive rt now"
    and "find (\<lambda>u. u_id u = userId rt) (users db) = Some user"
    and "u_isActive user"
    and "validLifetimes J env now"
  shows "\<exists>resp. fst (refreshToken J L env db v ip now src nid) = Inr resp"
proof -
  from validLifetimes_dates [OF assms(5)] obtain a b where
    "getTokenExpirationDate J (ACCESS_TOKEN_EXPIRES_IN env) now = Inr (Some a)"
    and "getRefreshTokenExpirationDate J env now = Inr (Some b)"
    by blast
  with assms(1-4) show ?thesis
    by (simp add: refreshToken_def Let_def saveRefreshToken_def accessExpiresAt_def)
qed

lemma refreshToken_deactivated:
  assumes "find (\<lambda>r. token r = v \<and> \<not> isRevoked r) (refreshTokens db) = Some rt"
    and "isActive rt now"
    and "find (\<lambda>u. u_id u = userId rt) (users db) = Some user"
    and "\<not> u_isActive user"
  shows "fst (refreshToken J L env db v ip now src nid) = Inl UserAccountDeactivated"
  using assms by (simp add: refreshToken_def)

lemma sample_validLifetimes: "validLifetimes sampleRuntime sampleEnv 5"
  by (simp add: validLifetimes_def getRefreshTokenExpirationDate_def getTokenExpirationDate_def
      sampleEnv_def sampleRuntime_plus timeClip_def matchExpiresIn_def isDigit_def Let_def
      parseInt10_def digitVal_def)

lemma find_unique_email:
  "distinct (map u_email tbl) \<Longrightarrow> u \<in> set tbl \<Longrightarrow> u_isActive u \<Longrightarrow>
   find (\<lambda>x. u_email x = u_email u \<and> u_isActive x) tbl = Some u"
  by (induction tbl) (auto simp: image_iff)

lemma login_ok:
  assumes "find (\<lambda>x. u_email x = toLowerCase J email \<and> u_isActive x) (users db) = Some found"
    and "verifyPassword P pw (u_password found)"
    and "validLifetimes J env now"
  shows "\<exists>resp. fst (login J L P env db email pw ip now src nid) = Inr resp \<and>
                r_id resp = u_id found \<and> r_email resp = u_email found"
proof -
  from validLifetimes_dates [OF assms(3)] obtain a b where
    "getTokenExpirationDate J (ACCESS_TOKEN_EXPIRES_IN env) now = Inr (Some a)"
    and "getRefreshTokenExpirationDate J env now = Inr (Some b)"
    by blast
  with assms(1,2) show ?thesis
    by (simp add: login_def Let_def saveRefreshToken_def accessExpiresAt_def authResponse_def)
qed

lemma login_found:
  assumes "fst (login J L P env db email pw ip now src nid) = Inr resp"
  shows "\<exists>found. find (\<lambda>x. u_email x = toLowerCase J email \<and> u_isActive x) (users db) = Some found \<and>
                 r_id resp = u_id found \<and> r_email resp = u_email found"
proof -
  obtain db' where "login J L P env db email pw ip now src nid = (Inr resp, db')"
    using assms by (metis prod.collapse)
  from login_success [OF this] show ?thesis by blast
qed

lemma register_success:
  assumes "register J L P env db email pw nm role fid now src nuid nid = (Inr resp, db')"
  shows "(\<exists>u. users db' = users db @ [u] \<and> u_email u = toLowerCase J email) \<and>
         r_email resp = toLowerCase J email"
  using assms
  by (auto simp: register_def Let_def saveRefreshToken_def authResponse_def
      split: option.splits sum.splits if_splits)

lemma blank_before_T: "(d @ '' '' @ y :: string) < d @ ''T'' @ x"
proof (induction d)
  case Nil
  have "CHR '' '' < CHR ''T''" by code_simp
  then show ?case by simp
next
  case (Cons c d)
  then show ?case by simp
qed

lemma sweep_keeps_same_day:
  assumes "r \<in> set (refresh_tokens sdb)" and "srt_expires_at r = d @ ''T'' @ x"
  shows "\<exists>sdb'. cleanExpiredTokens (Connected sdb) (d @ '' '' @ y) = Connected sdb' \<and>
                r \<in> set (refresh_tokens sdb')"
  using assms blank_before_T [of d y x] by (simp add: cleanExpiredTokens_connected)

subsection \<open>Usability of a refresh token\<close>

text \<open>
  Claim C2, as stated, calls a token usable, that is accepted when presented for
  rotation, as soon as it is unrevoked and unexpired. Rotation has a further guard: it
  refuses such a token with ``User account is deactivated'' when the owning user is
  inactive.
\<close>

theorem refresh_token_accepted_iff_counterexample:
  "sampleRow \<in> set (refreshTokens sampleDeactivatedDb) \<and>
   \<not> isRevoked sampleRow \<and> 5 < expiresAt sampleRow \<and> isActive sampleRow 5 \<and>
   fst (refreshToken sampleRuntime sampleLib sampleEnv sampleDeactivatedDb (token sampleRow) None 5
          sampleEntropy ''r2'') = Inl UserAccountDeactivated"
  by (simp add: refreshToken_def sampleDeactivatedDb_def sampleRow_def sampleUser_def isActive_def)

text \<open>
  Claim C2, amended. For a stored refresh-token row \<open>r\<close> (token strings being unique in
  the table, the configured lifetimes leading to valid dates) and any time \<open>now\<close>:
  \<open>isActive\<close> is true exactly when the row is not revoked and \<open>now\<close> is strictly before
  \<open>expiresAt\<close>; rotation fails with ``Invalid or expired refresh token'' exactly when
  that is not the case; and rotation accepts the row's token, returning a new pair,
  exactly when the row is unrevoked and unexpired and the user it belongs to is stored
  and active. With an inactive user it fails with ``User account is deactivated''.
\<close>

theorem refresh_token_accepted_iff:
  assumes "r \<in> set (refreshTokens db)" and "distinct (map token (refreshTokens db))"
    and "validLifetimes J env now"
  shows "(isActive r now \<longleftrightarrow> \<not> isRevoked r \<and> now < expiresAt r) \<and>
         (fst (refreshToken J L env db (token r) clientIp now src newId) = Inl InvalidOrExpiredRefreshToken
            \<longleftrightarrow> isRevoked r \<or> expiresAt r \<le> now) \<and>
         ((\<exists>resp. fst (refreshToken J L env db (token r) clientIp now src newId) = Inr resp)
            \<longleftrightarrow> \<not> isRevoked r \<and> now < expiresAt r \<and>
                (\<exists>u. find (\<lambda>u. u_id u = userId r) (users db) = Some u \<and> u_isActive u)) \<and>
         (\<not> isRevoked r \<and> now < expiresAt r \<and>
          (\<exists>u. find (\<lambda>u. u_id u = userId r) (users db) = Some u \<and> \<not> u_isActive u)
            \<longrightarrow> fst (refreshToken J L env db (token r) clientIp now src newId)
                  = Inl UserAccountDeactivated)"
proof -
  let ?res = "fst (refreshToken J L env db (token r) clientIp now src newId)"
  have f: "find (\<lambda>x. token x = token r \<and> \<not> isRevoked x) (refreshTokens db)
          = (if isRevoked r then None else Some r)"
    using assms(1,2) by (simp add: find_unique_token)
  have a: "isActive r now \<longleftrightarrow> \<not> isRevoked r \<and> now < expiresAt r"
    by (auto simp: isActive_def)
  have b: "?res = Inl InvalidOrExpiredRefreshToken \<longleftrightarrow> isRevoked r \<or> expiresAt r \<le> now"
    using f by (auto simp: refreshToken_invalid_iff isActive_def)
  have c: "(\<exists>resp. ?res = Inr resp)
            \<longleftrightarrow> \<not> isRevoked r \<and> now < expiresAt r \<and>
                (\<exists>u. find (\<lambda>u. u_id u = userId r) (users db) = Some u \<and> u_isActive u)"
  proof
    assume "\<exists>resp. ?res = Inr resp"
    then obtain resp db' where
      "refreshToken J L env db (token r) clientIp now src newId = (Inr resp, db')"
      by (metis prod.collapse)
    from refreshToken_success [OF this] obtain rt and user :: User where
      "find (\<lambda>x. token x = token r \<and> \<not> isRevoked x) (refreshTokens db) = Some rt"
      and "isActive rt now"
      and "find (\<lambda>u. u_id u = userId rt) (users db) = Some user" and "u_isActive user"
      by blast
    with f a show "\<not> isRevoked r \<and> now < expiresAt r \<and>
                (\<exists>u. find (\<lambda>u. u_id u = userId r) (users db) = Some u \<and> u_isActive u)"
      by (auto split: if_splits)
  next
    assume h: "\<not> isRevoked r \<and> now < expiresAt r \<and>
                (\<exists>u. find (\<lambda>u. u_id u = userId r) (users db) = Some u \<and> u_isActive u)"
    then obtain u :: User where u: "find (\<lambda>u. u_id u = userId r) (users db) = Some u" "u_isActive u"
      by blast
    from h f have "find (\<lambda>x. token x = token r \<and> \<not> isRevoked x) (refreshTokens db) = Some r"
      by simp
    moreover from h a have "isActive r now" by simp
    ultimately show "\<exists>resp. ?res = Inr resp"
      using u assms(3) by (rule refreshToken_ok)
  qed
  have d: "\<not> isRevoked r \<and> now < expiresAt r \<and>
          (\<exists>u. find (\<lambda>u. u_id u = userId r) (users db) = Some u \<and> \<not> u_isActive u)
            \<longrightarrow> ?res = Inl UserAccountDeactivated"
  proof
    assume h: "\<not> isRevoked r \<and> now < expiresAt r \<and>
          (\<exists>u. find (\<lambda>u. u_id u = userId r) (users db) = Some u \<and> \<not> u_isActive u)"
    then obtain u :: User where u: "find (\<lambda>u. u_id u = userId r) (users db) = Some u" "\<not> u_isActive u"
      by blast
    from h f have "find (\<lambda>x. token x = token r \<and> \<not> isRevoked x) (refreshTokens db) = Some r"
      by simp
    moreover from h a have "isActive r now" by simp
    ultimately show "?res = Inl UserAccountDeactivated"
      using u by (rule refreshToken_deactivated)
  qed
  from a b c d show ?thesis by blast
qed

theorem refresh_token_accepted_iff_witness:
  "sampleRow \<in> set (refreshTokens sampleDb) \<and> distinct (map token (refreshTokens sampleDb)) \<and>
   validLifetimes sampleRuntime sampleEnv 5 \<and> isActive sampleRow 5 \<and>
   (\<exists>resp. fst (refreshToken sampleRuntime sampleLib sampleEnv sampleDb ''c0ffee'' None 5
                  sampleEntropy ''r2'') = Inr resp) \<and>
   sampleRow \<in> set (refreshTokens sampleDeactivatedDb) \<and>
   distinct (map token (refreshTokens sampleDeactivatedDb)) \<and>
   fst (refreshToken sampleRuntime sampleLib sampleEnv sampleDeactivatedDb ''c0ffee'' None 5
          sampleEntropy ''r2'') = Inl UserAccountDeactivated"
  using refresh_token_accepted_iff [of sampleRow sampleDb sampleRuntime sampleEnv 5 sampleLib None
      sampleEntropy "''r2''"]
    refresh_token_accepted_iff [of sampleRow sampleDeactivatedDb sampleRuntime sampleEnv 5 sampleLib
      None sampleEntropy "''r2''"]
    sample_validLifetimes
  by (simp add: sampleDb_def sampleDeactivatedDb_def sampleRow_def sampleUser_def)

subsection \<open>Rotation\<close>

text \<open>
  Claim C1. Let a refresh token \<open>t\<close> be presented to rotation successfully, in a table
  whose token strings are unique, and let the replacement differ from \<open>t\<close>. Then after
  any further history of logins, registrations, rotations and logouts that never
  generates \<open>t\<close> again, presenting \<open>t\<close> to rotation fails with
  ``Invalid or expired refresh token'', at every clock reading \<open>now'\<close>, hence also while
  the stored \<open>expiresAt\<close> is still in the future. (Rotation saves the revoked row before
  it stores the replacement.)
\<close>

theorem rotated_token_never_reusable:
  assumes "refreshToken J L env db t ip now src nid = (Inr resp, db')"
    and "distinct (map token (refreshTokens db))"
    and "r_refreshToken resp \<noteq> t"
    and "list_all (\<lambda>op. issuedToken op \<noteq> Some t) ops"
  shows "fst (refreshToken J L env (runOps J L P env db' ops) t ip' now' src' nid')
           = Inl InvalidOrExpiredRefreshToken"
proof -
  have "r_refreshToken resp = generateRefreshToken src"
    using refreshToken_success [OF assms(1)] by blast
  with assms(3) have "generateRefreshToken src \<noteq> t" by simp
  then have "spent t (refreshTokens db')"
    using assms(1,2) by (rule spent_after_rotation [rotated 2])
  then have "spent t (refreshTokens (runOps J L P env db' ops))"
    using assms(4) by (rule spent_runOps)
  then show ?thesis
    by (simp add: refreshToken_invalid_iff spent_def)
qed

theorem rotated_token_never_reusable_witness:
  "\<exists>resp db'.
     refreshToken sampleRuntime sampleLib sampleEnv sampleDb ''c0ffee'' None 5 (\<lambda>i. 0) ''r2'' = (Inr resp, db') \<and>
     distinct (map token (refreshTokens sampleDb)) \<and>
     r_refreshToken resp \<noteq> ''c0ffee'' \<and>
     fst (refreshToken sampleRuntime sampleLib sampleEnv
            (runOps sampleRuntime sampleLib samplePasswords sampleEnv db'
               [OpLogout ''c0ffee'' None 6,
                OpLogin ''Amina@AfyaTrack.com'' ''Afya123!'' None 7 (\<lambda>i. 1) ''r3''])
            ''c0ffee'' None 8 (\<lambda>i. 2) ''r4'') = Inl InvalidOrExpiredRefreshToken"
proof -
  obtain resp db' where
    ok: "refreshToken sampleRuntime sampleLib sampleEnv sampleDb ''c0ffee'' None 5 (\<lambda>i. 0) ''r2'' = (Inr resp, db')"
    using sample_rotation by blast
  have uniq: "distinct (map token (refreshTokens sampleDb))"
    by (simp add: sampleDb_def)
  have "r_refreshToken resp = generateRefreshToken (\<lambda>i. 0)"
    using refreshToken_success [OF ok] by blast
  then have fresh: "r_refreshToken resp \<noteq> ''c0ffee''"
    by (simp add: generateRefreshToken_neq_short)
  have ops: "list_all (\<lambda>op. issuedToken op \<noteq> Some ''c0ffee'')
               [OpLogout ''c0ffee'' None 6,
                OpLogin ''Amina@AfyaTrack.com'' ''Afya123!'' None 7 (\<lambda>i. 1) ''r3'']"
    by (simp add: generateRefreshToken_neq_short)
  show ?thesis
    using rotated_token_never_reusable [OF ok uniq fresh ops] ok uniq fresh by blast
qed

text \<open>
  Claim C3. With unique token strings, rotation fails with
  ``Invalid or expired refresh token'' exactly when no stored row carries the presented
  string, or that row is revoked, or \<open>expiresAt \<le> now\<close>. When it succeeds, the table is
  the old one with the presented row's \<open>isRevoked\<close>, \<open>revokedAt\<close> and \<open>revokedByIp\<close> set
  (no row is removed), followed by exactly one new unrevoked row, which carries the
  returned refresh token and belongs to the same user.
\<close>

theorem rotation_outcome:
  assumes "distinct (map token (refreshTokens db))"
  shows "(fst (refreshToken J L env db v ip now src nid) = Inl InvalidOrExpiredRefreshToken \<longleftrightarrow>
            (case find (\<lambda>r. token r = v) (refreshTokens db) of
               None \<Rightarrow> True
             | Some r \<Rightarrow> isRevoked r \<or> expiresAt r \<le> now)) \<and>
         (\<forall>resp db'. refreshToken J L env db v ip now src nid = (Inr resp, db') \<longrightarrow>
            (\<exists>old new.
               find (\<lambda>r. token r = v) (refreshTokens db) = Some old \<and>
               refreshTokens db' =
                 map (\<lambda>r. if rt_id r = rt_id old
                          then old\<lparr>isRevoked := True, revokedAt := Some now, revokedByIp := ip\<rparr>
                          else r) (refreshTokens db) @ [new] \<and>
               token new = r_refreshToken resp \<and> userId new = userId old \<and>
               \<not> isRevoked new \<and> r_id resp = userId old))"
proof (intro conjI allI impI)
  show "fst (refreshToken J L env db v ip now src nid) = Inl InvalidOrExpiredRefreshToken \<longleftrightarrow>
            (case find (\<lambda>r. token r = v) (refreshTokens db) of
               None \<Rightarrow> True
             | Some r \<Rightarrow> isRevoked r \<or> expiresAt r \<le> now)"
    by (auto simp: refreshToken_invalid_iff find_token_unique [OF assms] isActive_def
        split: option.splits)
next
  fix resp db'
  assume ok: "refreshToken J L env db v ip now src nid = (Inr resp, db')"
  from refreshToken_success [OF ok] obtain rt and user :: User and expires where
    f: "find (\<lambda>r. token r = v \<and> \<not> isRevoked r) (refreshTokens db) = Some rt"
    and u: "find (\<lambda>u. u_id u = userId rt) (users db) = Some user"
    and tbl: "refreshTokens db' =
             saveToken (revoke rt ip now) (refreshTokens db) @
               [\<lparr>rt_id = nid, token = generateRefreshToken src, userId = u_id user,
                 expiresAt = expires, isRevoked = False, createdByIp = ip, revokedByIp = None,
                 revokedAt = None, createdAt = now\<rparr>]"
    and r: "r_refreshToken resp = generateRefreshToken src" "r_id resp = u_id user"
    by blast
  from f have old: "find (\<lambda>r. token r = v) (refreshTokens db) = Some rt"
    by (auto simp: find_token_unique [OF assms] split: option.splits if_splits)
  from f have "rt \<in> set (refreshTokens db)"
    by (auto dest: find_Some_set)
  then have sv: "saveToken (revoke rt ip now) (refreshTokens db)
        = map (\<lambda>r. if rt_id r = rt_id rt then revoke rt ip now else r) (refreshTokens db)"
    by (rule saveToken_revoke)
  from u have uid: "u_id user = userId rt"
    by (auto dest: find_Some_set)
  let ?new = "\<lparr>rt_id = nid, token = generateRefreshToken src, userId = u_id user,
                 expiresAt = expires, isRevoked = False, createdByIp = ip, revokedByIp = None,
                 revokedAt = None, createdAt = now\<rparr>"
  have "find (\<lambda>r. token r = v) (refreshTokens db) = Some rt \<and>
        refreshTokens db' =
          map (\<lambda>r. if rt_id r = rt_id rt
                   then rt\<lparr>isRevoked := True, revokedAt := Some now, revokedByIp := ip\<rparr>
                   else r) (refreshTokens db) @ [?new] \<and>
        token ?new = r_refreshToken resp \<and> userId ?new = userId rt \<and>
        \<not> isRevoked ?new \<and> r_id resp = userId rt"
    using old tbl r uid sv by (simp add: revoke_def)
  then show "\<exists>old new.
               find (\<lambda>r. token r = v) (refreshTokens db) = Some old \<and>
               refreshTokens db' =
                 map (\<lambda>r. if rt_id r = rt_id old
                          then old\<lparr>isRevoked := True, revokedAt := Some now, revokedByIp := ip\<rparr>
                          else r) (refreshTokens db) @ [new] \<and>
               token new = r_refreshToken resp \<and> userId new = userId old \<and>
               \<not> isRevoked new \<and> r_id resp = userId old"
    by blast
qed

theorem rotation_outcome_witness:
  "distinct (map token (refreshTokens sampleDb)) \<and>
   fst (refreshToken sampleRuntime sampleLib sampleEnv sampleDb ''c0ffee'' None 1000 (\<lambda>i. 0) ''r2'')
     = Inl InvalidOrExpiredRefreshToken \<and>
   (\<exists>resp db' new.
      refreshToken sampleRuntime sampleLib sampleEnv sampleDb ''c0ffee'' None 5 (\<lambda>i. 0) ''r2'' = (Inr resp, db') \<and>
      refreshTokens db' =
        [sampleRow\<lparr>isRevoked := True, revokedAt := Some 5, revokedByIp := None\<rparr>, new] \<and>
      token new = r_refreshToken resp \<and> userId new = ''u1'' \<and> \<not> isRevoked new)"
proof -
  have uniq: "distinct (map token (refreshTokens sampleDb))"
    by (simp add: sampleDb_def)
  note out = rotation_outcome [OF uniq, of sampleRuntime sampleLib sampleEnv "''c0ffee''" None _ "\<lambda>i. 0" "''r2''"]
  have late: "fst (refreshToken sampleRuntime sampleLib sampleEnv sampleDb ''c0ffee'' None 1000 (\<lambda>i. 0) ''r2'')
     = Inl InvalidOrExpiredRefreshToken"
    using out [of 1000] by (simp add: sampleDb_def sampleRow_def)
  obtain resp db' where
    ok: "refreshToken sampleRuntime sampleLib sampleEnv sampleDb ''c0ffee'' None 5 (\<lambda>i. 0) ''r2'' = (Inr resp, db')"
    using sample_rotation by blast
  with out [of 5] obtain old new where
    "find (\<lambda>r. token r = ''c0ffee'') (refreshTokens sampleDb) = Some old"
    and "refreshTokens db' =
           map (\<lambda>r. if rt_id r = rt_id old
                    then old\<lparr>isRevoked := True, revokedAt := Some 5, revokedByIp := None\<rparr>
                    else r) (refreshTokens sampleDb) @ [new]"
    and "token new = r_refreshToken resp" "userId new = userId old" "\<not> isRevoked new"
    by blast
  then have "refreshTokens db' =
        [sampleRow\<lparr>isRevoked := True, revokedAt := Some 5, revokedByIp := None\<rparr>, new] \<and>
      token new = r_refreshToken resp \<and> userId new = ''u1'' \<and> \<not> isRevoked new"
    by (auto simp: sampleDb_def sampleRow_def)
  with uniq late ok show ?thesis by blast
qed

subsection \<open>Logout\<close>

text \<open>
  Claim C4, as stated, asks of every logout by refresh token that a second call leaves
  the state of the first and completes without error. The logout of the SQL-driven
  service deletes the row and throws when nothing was deleted: on a table holding the
  token, the first call succeeds and the second one fails with ``Invalid refresh token''.
\<close>

theorem logout_idempotence_counterexample:
  "fst (logout_sql (Connected sampleSqlDb) ''eyJhbGciOiJIUzI1NiJ9.u1.sig'') = Inr () \<and>
   fst (logout_sql (snd (logout_sql (Connected sampleSqlDb) ''eyJhbGciOiJIUzI1NiJ9.u1.sig''))
          ''eyJhbGciOiJIUzI1NiJ9.u1.sig'') = Inl (AppError ''Invalid refresh token'' 401)"
  by (simp add: logout_sql_def dbManager_run_def sampleSqlDb_def Let_def)

text \<open>
  Claim C4, amended. The logout of the ORM-based service is idempotent: a second call
  with the same token string leaves the database of the first call, in which the row
  found for that string (if any) is revoked; that logout has no error exit. The logout of
  the SQL-driven service deletes the rows with that token string: deleting twice leaves
  the table of deleting once, but the second call always fails, with
  ``Invalid refresh token'' (401) whenever the database is reachable.
\<close>

theorem logout_idempotence:
  "logout (logout db v ip now) v ip' now' = logout db v ip now \<and>
   (case find (\<lambda>r. token r = v) (refreshTokens (logout db v ip now)) of
      None \<Rightarrow> True | Some r \<Rightarrow> isRevoked r) \<and>
   snd (logout_sql (snd (logout_sql mgr w)) w) = snd (logout_sql mgr w) \<and>
   isl (fst (logout_sql (snd (logout_sql mgr w)) w)) \<and>
   (\<forall>sdb. mgr = Connected sdb \<longrightarrow>
      fst (logout_sql (snd (logout_sql mgr w)) w) = Inl (AppError ''Invalid refresh token'' 401))"
  using logout_twice logout_first_row_revoked logout_sql_state_twice logout_sql_second_fails
    logout_sql_second_message
  by blast

theorem logout_idempotence_witness:
  "logout (logout sampleDb ''c0ffee'' None 5) ''c0ffee'' None 6 = logout sampleDb ''c0ffee'' None 5 \<and>
   refreshTokens (logout sampleDb ''c0ffee'' None 5)
     = [sampleRow\<lparr>isRevoked := True, revokedAt := Some 5, revokedByIp := None\<rparr>] \<and>
   snd (logout_sql (snd (logout_sql (Connected sampleSqlDb) ''eyJhbGciOiJIUzI1NiJ9.u1.sig''))
          ''eyJhbGciOiJIUzI1NiJ9.u1.sig'')
     = Connected (sampleSqlDb\<lparr>refresh_tokens := []\<rparr>) \<and>
   fst (logout_sql (snd (logout_sql (Connected sampleSqlDb) ''eyJhbGciOiJIUzI1NiJ9.u1.sig''))
          ''eyJhbGciOiJIUzI1NiJ9.u1.sig'') = Inl (AppError ''Invalid refresh token'' 401)"
  using logout_idempotence [of sampleDb "''c0ffee''" None 5 None 6 "Connected sampleSqlDb"
      "''eyJhbGciOiJIUzI1NiJ9.u1.sig''"]
  by (simp add: logout_def sampleDb_def sampleRow_def saveToken_def revoke_def
      logout_sql_def dbManager_run_def sampleSqlDb_def Let_def)

subsection \<open>Format of the refresh token\<close>

text \<open>
  Claim C5, as stated, asks of every issued refresh token that it is the hex encoding of
  64 random bytes and never a signed token. \<^verbatim>\<open>generateTokens\<close> of the SQL-driven service
  returns \<^verbatim>\<open>jwt.sign\<close> of the identity payload as the refresh token: at the sample input
  it is a dotted three-segment string of 27 characters.
\<close>

theorem refresh_token_format_counterexample:
  "fst (generateTokens sampleLib sampleConfig sampleToISOString (Connected (sampleSqlDb\<lparr>refresh_tokens := []\<rparr>))
          ''u1'' ''amina@afyatrack.com'' ''doctor'' 0 ''s1'')
     = Inr \<lparr>accessToken = ''eyJhbGciOiJIUzI1NiJ9.u1.sig'',
            refreshToken_of = ''eyJhbGciOiJIUzI1NiJ9.u1.sig''\<rparr> \<and>
   length ''eyJhbGciOiJIUzI1NiJ9.u1.sig'' \<noteq> 128 \<and>
   CHR ''.'' \<in> set ''eyJhbGciOiJIUzI1NiJ9.u1.sig''"
  by (simp add: generateTokens_def sign_def sampleLib_def sampleConfig_def sampleSqlDb_def Let_def)

text \<open>
  Claim C5, amended. \<^verbatim>\<open>generateRefreshToken\<close> of the ORM-based service returns 128
  lower-case hex digits, the encoding of 64 bytes of the entropy source and of nothing
  else; login, registration and rotation of that service return exactly this string as
  the refresh token. \<^verbatim>\<open>generateTokens\<close> of the SQL-driven service returns as the refresh
  token the signed JWT over \<open>{userId, email, role}\<close> under \<^verbatim>\<open>JWT_SECRET\<close> with the
  refresh lifetime, which is never a hex string.
\<close>

theorem refresh_token_format:
  "(length (generateRefreshToken src) = 128 \<and>
    list_all (\<lambda>c. c \<in> set hexDigits) (generateRefreshToken src)) \<and>
   (fst (login J L P env db1 email1 pw1 ip1 now1 src1 nid1) = Inr resp1
      \<longrightarrow> r_refreshToken resp1 = generateRefreshToken src1) \<and>
   (fst (register J L P env db2 email2 pw2 nm role fid now2 src2 nuid nid2) = Inr resp2
      \<longrightarrow> r_refreshToken resp2 = generateRefreshToken src2) \<and>
   (fst (refreshToken J L env db3 v ip3 now3 src3 nid3) = Inr resp3
      \<longrightarrow> r_refreshToken resp3 = generateRefreshToken src3) \<and>
   (fst (generateTokens L cfg toISO mgr uid email' role' now rid) = Inr pair
      \<longrightarrow> refreshToken_of pair =
            sign L \<lparr>p_userId = uid, p_email = email', p_role = role', p_facilityId = None\<rparr>
              (JWT_SECRET cfg)
              \<lparr>expiresIn = JWT_REFRESH_EXPIRES_IN cfg, so_issuer = None, so_audience = None\<rparr> now \<and>
          \<not> list_all (\<lambda>c. c \<in> set hexDigits) (refreshToken_of pair))"
  using length_generateRefreshToken generateRefreshToken_digits login_token register_token
    rotation_token generateTokens_token sign_not_hex
  by metis

theorem refresh_token_format_witness:
  "\<exists>resp1 resp2 resp3 pair.
     fst (login sampleRuntime sampleLib samplePasswords sampleEnv sampleDb ''Amina@AfyaTrack.com'' ''Afya123!''
            None 5 (\<lambda>i. 0) ''r2'') = Inr resp1 \<and>
     fst (register sampleRuntime sampleLib samplePasswords sampleEnv sampleDb ''Baraka@AfyaTrack.com'' ''Afya123!''
            ''Baraka'' None None 5 (\<lambda>i. 0) ''u2'' ''r2'') = Inr resp2 \<and>
     fst (refreshToken sampleRuntime sampleLib sampleEnv sampleDb ''c0ffee'' None 5 (\<lambda>i. 0) ''r2'') = Inr resp3 \<and>
     fst (generateTokens sampleLib sampleConfig sampleToISOString
            (Connected (sampleSqlDb\<lparr>refresh_tokens := []\<rparr>))
            ''u1'' ''amina@afyatrack.com'' ''doctor'' 5 ''s1'') = Inr pair \<and>
     length (r_refreshToken resp1) = 128 \<and> r_refreshToken resp2 = r_refreshToken resp1 \<and>
     r_refreshToken resp3 = r_refreshToken resp1 \<and>
     \<not> list_all (\<lambda>c. c \<in> set hexDigits) (refreshToken_of pair)"
proof -
  obtain resp1 where l: "fst (login sampleRuntime sampleLib samplePasswords sampleEnv sampleDb ''Amina@AfyaTrack.com''
            ''Afya123!'' None 5 (\<lambda>i. 0) ''r2'') = Inr resp1"
    using sample_login by (metis fst_conv)
  obtain resp2 where r: "fst (register sampleRuntime sampleLib samplePasswords sampleEnv sampleDb
            ''Baraka@AfyaTrack.com'' ''Afya123!'' ''Baraka'' None None 5 (\<lambda>i. 0) ''u2'' ''r2'') = Inr resp2"
    using sample_register by (metis fst_conv)
  obtain resp3 where t: "fst (refreshToken sampleRuntime sampleLib sampleEnv sampleDb ''c0ffee'' None 5 (\<lambda>i. 0) ''r2'')
            = Inr resp3"
    using sample_rotation by (metis fst_conv)
  obtain pair where g: "fst (generateTokens sampleLib sampleConfig sampleToISOString
            (Connected (sampleSqlDb\<lparr>refresh_tokens := []\<rparr>))
            ''u1'' ''amina@afyatrack.com'' ''doctor'' 5 ''s1'') = Inr pair"
    by (simp add: generateTokens_def sampleSqlDb_def Let_def)
  show ?thesis
    using refresh_token_format [of "\<lambda>i. 0" sampleRuntime sampleLib samplePasswords sampleEnv
        sampleDb "''Amina@AfyaTrack.com''" "''Afya123!''" None 5 "\<lambda>i. 0" "''r2''" resp1
        sampleDb "''Baraka@AfyaTrack.com''" "''Afya123!''" "''Baraka''" None None 5 "\<lambda>i. 0" "''u2''" "''r2''" resp2
        sampleDb "''c0ffee''" None 5 "\<lambda>i. 0" "''r2''" resp3
        sampleConfig sampleToISOString "Connected (sampleSqlDb\<lparr>refresh_tokens := []\<rparr>)"
        "''u1''" "''amina@afyatrack.com''" "''doctor''" 5 "''s1''" pair]
      l r t g
    by auto
qed

subsection \<open>Removal of expired tokens\<close>

text \<open>
  Claim C6 asks that the hourly sweep removes every row with \<open>expiresAt \<le> now\<close>. The
  sweep is \<^verbatim>\<open>cleanExpiredTokens\<close> (``Clean expired refresh tokens''), which compares the
  stored \<^verbatim>\<open>expires_at\<close> with \<^verbatim>\<open>CURRENT_TIMESTAMP\<close>. \<^verbatim>\<open>generateTokens\<close> writes
  \<^verbatim>\<open>expires_at\<close> as \<^verbatim>\<open>toISOString()\<close> text, with a \<open>T\<close> after the date, while
  \<^verbatim>\<open>CURRENT_TIMESTAMP\<close> has a blank there: a row that expired at ten o'clock is still in
  the table when the sweep runs at noon of the same day, and is removed only by a sweep
  of a later day.
\<close>

theorem hourly_sweep_keeps_expired_row:
  "cleanExpiredTokens (Connected sampleSweepDb) ''2025-01-01 12:00:00'' = Connected sampleSweepDb \<and>
   cleanExpiredTokens (Connected sampleSweepDb) ''2025-01-02 00:00:00''
     = Connected (sampleSweepDb\<lparr>refresh_tokens := []\<rparr>)"
proof -
  have "(''2025-01-01 12:00:00'' :: string) < ''2025-01-01T10:00:00.000Z''"
    and "\<not> (''2025-01-02 00:00:00'' :: string) < ''2025-01-01T10:00:00.000Z''"
    by code_simp+
  then show ?thesis
    by (simp add: cleanExpiredTokens_connected sampleSweepDb_def)
qed

subsection \<open>Verification of access tokens\<close>

text \<open>
  Claim C7. Access-token verification does not depend on the refresh-token table.
  \<^verbatim>\<open>verifyAccessToken\<close> has no access to storage at all, and \<^verbatim>\<open>authenticateToken\<close>,
  which runs it on a request and then looks the user up, gives the same answer for
  every request before and after any replacement of the refresh-token table, and in
  particular before and after a logout, a logout from all devices and a rotation.
  Hence whenever the library accepts a token (valid signature, not yet expired),
  \<^verbatim>\<open>verifyAccessToken\<close> returns its payload, whatever happened to the session's
  refresh token.
\<close>

theorem access_token_unaffected_by_refresh_tokens:
  "authenticateToken L env (db\<lparr>refreshTokens := tbl\<rparr>) now hdr = authenticateToken L env db now hdr \<and>
   authenticateToken L env (logout db v ip t) now hdr = authenticateToken L env db now hdr \<and>
   authenticateToken L env (logoutFromAllDevices db uid ip t) now hdr
     = authenticateToken L env db now hdr \<and>
   authenticateToken L env (snd (refreshToken J L env db v ip t src nid)) now hdr
     = authenticateToken L env db now hdr \<and>
   (verify L tok (ACCESS_TOKEN_SECRET env)
        \<lparr>vo_issuer = Some ''afyatrack-api'', vo_audience = Some ''afyatrack-frontend''\<rparr> now
      = Returned payload
    \<longrightarrow> verifyAccessToken L env now tok = Inr payload)"
proof (intro conjI impI)
  show "authenticateToken L env (db\<lparr>refreshTokens := tbl\<rparr>) now hdr = authenticateToken L env db now hdr"
    by (rule authenticateToken_users_only) simp
  show "authenticateToken L env (logout db v ip t) now hdr = authenticateToken L env db now hdr"
    by (rule authenticateToken_users_only) (rule users_logout)
  show "authenticateToken L env (logoutFromAllDevices db uid ip t) now hdr
     = authenticateToken L env db now hdr"
    by (rule authenticateToken_users_only) (rule users_logoutAll)
  show "authenticateToken L env (snd (refreshToken J L env db v ip t src nid)) now hdr
     = authenticateToken L env db now hdr"
    by (rule authenticateToken_users_only) (rule users_refreshToken)
next
  assume "verify L tok (ACCESS_TOKEN_SECRET env)
        \<lparr>vo_issuer = Some ''afyatrack-api'', vo_audience = Some ''afyatrack-frontend''\<rparr> now
      = Returned payload"
  then show "verifyAccessToken L env now tok = Inr payload"
    by (simp add: verifyAccessToken_def)
qed

theorem access_token_unaffected_by_refresh_tokens_witness:
  "verifyAccessToken sampleLib sampleEnv 10 ''eyJhbGciOiJIUzI1NiJ9.u1.sig''
     = Inr \<lparr>p_userId = ''u1'', p_email = ''amina@afyatrack.com'', p_role = ''doctor'',
            p_facilityId = None\<rparr> \<and>
   authenticateToken sampleLib sampleEnv
       (logout (snd (login sampleRuntime sampleLib samplePasswords sampleEnv sampleDb ''Amina@AfyaTrack.com''
                       ''Afya123!'' None 5 (\<lambda>i. 0) ''r2''))
          (generateRefreshToken (\<lambda>i. 0)) None 8)
       10 (Some ''Bearer eyJhbGciOiJIUzI1NiJ9.u1.sig'')
     = authenticateToken sampleLib sampleEnv
         (snd (login sampleRuntime sampleLib samplePasswords sampleEnv sampleDb ''Amina@AfyaTrack.com''
                 ''Afya123!'' None 5 (\<lambda>i. 0) ''r2''))
         10 (Some ''Bearer eyJhbGciOiJIUzI1NiJ9.u1.sig'') \<and>
   fst (refreshToken sampleRuntime sampleLib sampleEnv
          (logout (snd (login sampleRuntime sampleLib samplePasswords sampleEnv sampleDb ''Amina@AfyaTrack.com''
                          ''Afya123!'' None 5 (\<lambda>i. 0) ''r2''))
             (generateRefreshToken (\<lambda>i. 0)) None 8)
          (generateRefreshToken (\<lambda>i. 0)) None 9 (\<lambda>i. 1) ''r3'')
     = Inl InvalidOrExpiredRefreshToken"
proof -
  let ?db1 = "snd (login sampleRuntime sampleLib samplePasswords sampleEnv sampleDb ''Amina@AfyaTrack.com''
                 ''Afya123!'' None 5 (\<lambda>i. 0) ''r2'')"
  let ?t = "generateRefreshToken (\<lambda>i. 0)"
  let ?p = "\<lparr>p_userId = ''u1'', p_email = ''amina@afyatrack.com'', p_role = ''doctor'',
            p_facilityId = None\<rparr>"
  have accepted: "verify sampleLib ''eyJhbGciOiJIUzI1NiJ9.u1.sig'' (ACCESS_TOKEN_SECRET sampleEnv)
        \<lparr>vo_issuer = Some ''afyatrack-api'', vo_audience = Some ''afyatrack-frontend''\<rparr> 10
      = Returned ?p"
    by (simp add: sampleLib_def)
  note inst = access_token_unaffected_by_refresh_tokens
    [where J = sampleRuntime and L = sampleLib and env = sampleEnv and db = ?db1 and tbl = "[]" and now = 10
       and hdr = "Some ''Bearer eyJhbGciOiJIUzI1NiJ9.u1.sig''" and v = ?t and ip = None and t = 8
       and uid = "''u1''" and src = "\<lambda>i. 1" and nid = "''r3''"
       and tok = "''eyJhbGciOiJIUzI1NiJ9.u1.sig''" and payload = ?p]
  have "distinct (map token (refreshTokens ?db1))"
    using generateRefreshToken_neq_short [of "''c0ffee''" "\<lambda>i. 0"]
    by (auto simp: sample_login_snd sampleRow_def sampleNewRow_def)
  then have "spent ?t (refreshTokens (logout ?db1 ?t None 8))"
    by (rule spent_after_logout)
  then have "fst (refreshToken sampleRuntime sampleLib sampleEnv (logout ?db1 ?t None 8) ?t None 9 (\<lambda>i. 1) ''r3'')
     = Inl InvalidOrExpiredRefreshToken"
    by (simp add: refreshToken_invalid_iff spent_def)
  with inst accepted show ?thesis
    by blast
qed

text \<open>
  Claim C8, as stated, allows \<^verbatim>\<open>verifyAccessToken\<close> two errors only. Its \<^verbatim>\<open>catch\<close> has a
  third branch: an exception of \<^verbatim>\<open>jwt.verify\<close> that is no \<^verbatim>\<open>JsonWebTokenError\<close> becomes
  ``Token verification failed''.
\<close>

theorem verifyAccessToken_outcomes_counterexample:
  "verifyAccessToken sampleLib sampleEnv 0 ''eyJ0eXAiOiJKV1QifQ.bm90IGpzb24.x''
     = Inl TokenVerificationFailed"
  by (simp add: verifyAccessToken_def sampleLib_def)

text \<open>
  Claim C8, amended. \<^verbatim>\<open>verifyAccessToken\<close> is a function of the token, the secret and
  the clock alone (it has no storage argument). It returns the payload that
  \<^verbatim>\<open>jwt.verify\<close> returns, or fails with exactly one of three errors:
  ``Access token expired'' when \<^verbatim>\<open>jwt.verify\<close> throws \<^verbatim>\<open>TokenExpiredError\<close>,
  ``Invalid access token'' when it throws any other \<^verbatim>\<open>JsonWebTokenError\<close>, and
  ``Token verification failed'' when it throws anything else.
\<close>

theorem verifyAccessToken_outcomes:
  "verifyAccessToken L env now tok =
     (case verify L tok (ACCESS_TOKEN_SECRET env)
             \<lparr>vo_issuer = Some ''afyatrack-api'', vo_audience = Some ''afyatrack-frontend''\<rparr> now of
        Returned payload \<Rightarrow> Inr payload
      | Threw TokenExpiredError \<Rightarrow> Inl AccessTokenExpired
      | Threw NotBeforeError \<Rightarrow> Inl InvalidAccessToken
      | Threw JsonWebTokenError \<Rightarrow> Inl InvalidAccessToken
      | Threw OtherError \<Rightarrow> Inl TokenVerificationFailed)"
  by (simp add: verifyAccessToken_def split: jwt_outcome.split jwt_thrown.split)

theorem verifyAccessToken_outcomes_witness:
  "verifyAccessToken sampleLib sampleEnv 10 ''eyJhbGciOiJIUzI1NiJ9.u1.sig''
     = Inr \<lparr>p_userId = ''u1'', p_email = ''amina@afyatrack.com'', p_role = ''doctor'',
            p_facilityId = None\<rparr> \<and>
   verifyAccessToken sampleLib sampleEnv 86400000 ''eyJhbGciOiJIUzI1NiJ9.u1.sig''
     = Inl AccessTokenExpired \<and>
   verifyAccessToken sampleLib sampleEnv 10 ''eyJhbGciOiJIUzI1NiJ9.u1.forged''
     = Inl InvalidAccessToken \<and>
   verifyAccessToken sampleLib sampleEnv 10 ''eyJ0eXAiOiJKV1QifQ.bm90IGpzb24.x''
     = Inl TokenVerificationFailed"
  using verifyAccessToken_outcomes [of sampleLib sampleEnv 10 "''eyJhbGciOiJIUzI1NiJ9.u1.sig''"]
    verifyAccessToken_outcomes [of sampleLib sampleEnv 86400000 "''eyJhbGciOiJIUzI1NiJ9.u1.sig''"]
    verifyAccessToken_outcomes [of sampleLib sampleEnv 10 "''eyJhbGciOiJIUzI1NiJ9.u1.forged''"]
    verifyAccessToken_outcomes [of sampleLib sampleEnv 10 "''eyJ0eXAiOiJKV1QifQ.bm90IGpzb24.x''"]
  by (simp add: sampleLib_def)

subsection \<open>Patient access\<close>

text \<open>
  Claim C9. For an authenticated request that names a patient, \<^verbatim>\<open>authorizePatientAccess\<close>
  lets the request proceed if and only if the user's role is admin, or the database
  answers and holds a patient row with that id whose creator is the user or which has a
  visit with the user as doctor. When the lookup fails (no connection, or the driver
  reports an error) a non-admin request is not let through: the error is passed on.
\<close>

theorem patient_access_decision:
  assumes "req_user req = Some user"
    and "orElse (params_patientId req) (body_patientId req) = Some pid" and "pid \<noteq> []"
  shows "(authorizePatientAccess mgr req = Proceed \<longleftrightarrow>
            su_role user = ''admin'' \<or>
            (\<exists>sdb. mgr = Connected sdb \<and>
               (\<exists>p\<in>set (patients sdb). pat_id p = pid \<and>
                  (pat_created_by p = su_id user \<or>
                   (\<exists>v\<in>set (visits sdb). v_patient_id v = pid \<and> v_doctor_id v = su_id user))))) \<and>
         (su_role user \<noteq> ''admin'' \<and> (mgr = NotConnected \<or> mgr = Faulty err)
            \<longrightarrow> (\<exists>e. authorizePatientAccess mgr req = NextError (DatabaseError e)))"
proof (cases "su_role user = ''admin''")
  case True
  with assms show ?thesis
    by (simp add: authorizePatientAccess_def)
next
  case False
  show ?thesis
  proof (cases mgr)
    case NotConnected
    with assms False show ?thesis
      by (simp add: authorizePatientAccess_def dbManager_get_def)
  next
    case (Faulty x)
    with assms False show ?thesis
      by (simp add: authorizePatientAccess_def dbManager_get_def)
  next
    case (Connected sdb)
    have "authorizePatientAccess mgr req = Proceed
            \<longleftrightarrow> (\<exists>row. hasAccessQuery pid (su_id user) sdb = Some row)"
      using assms False Connected
      by (auto simp: authorizePatientAccess_def dbManager_get_def split: option.splits)
    with False Connected show ?thesis
      by (simp add: hasAccessQuery_Some_iff)
  qed
qed

theorem patient_access_decision_witness:
  "authorizePatientAccess (Connected sampleSqlDb) (sampleRequest ''u1'' ''doctor'' ''p1'') = Proceed \<and>
   authorizePatientAccess (Connected sampleSqlDb) (sampleRequest ''u2'' ''doctor'' ''p2'') = Proceed \<and>
   authorizePatientAccess (Connected sampleSqlDb) (sampleRequest ''u2'' ''doctor'' ''p1'')
     = NextError (AppError ''Access denied to patient data'' 403) \<and>
   authorizePatientAccess (Connected sampleSqlDb) (sampleRequest ''u7'' ''admin'' ''p1'') = Proceed \<and>
   authorizePatientAccess NotConnected (sampleRequest ''u1'' ''doctor'' ''p1'') \<noteq> Proceed"
proof -
  have r: "\<And>uid role pid. req_user (sampleRequest uid role pid)
            = Some \<lparr>su_id = uid, su_email = uid @ ''@afyatrack.com'', su_role = role\<rparr>"
    and p: "\<And>uid role pid. pid \<noteq> [] \<Longrightarrow>
             orElse (params_patientId (sampleRequest uid role pid))
                    (body_patientId (sampleRequest uid role pid)) = Some pid"
    by (simp_all add: sampleRequest_def orElse_def)
  have a: "authorizePatientAccess (Connected sampleSqlDb) (sampleRequest ''u1'' ''doctor'' ''p1'') = Proceed"
    using patient_access_decision [OF r p, of "''p1''" "Connected sampleSqlDb" "''u1''" "''doctor''"]
    by (simp add: sampleSqlDb_def)
  have b: "authorizePatientAccess (Connected sampleSqlDb) (sampleRequest ''u2'' ''doctor'' ''p2'') = Proceed"
    using patient_access_decision [OF r p, of "''p2''" "Connected sampleSqlDb" "''u2''" "''doctor''"]
    by (simp add: sampleSqlDb_def)
  have c: "authorizePatientAccess (Connected sampleSqlDb) (sampleRequest ''u2'' ''doctor'' ''p1'')
     = NextError (AppError ''Access denied to patient data'' 403)"
    by (simp add: authorizePatientAccess_def sampleRequest_def orElse_def dbManager_get_def
        hasAccessQuery_def sampleSqlDb_def)
  have d: "authorizePatientAccess (Connected sampleSqlDb) (sampleRequest ''u7'' ''admin'' ''p1'') = Proceed"
    using patient_access_decision [OF r p, of "''p1''" "Connected sampleSqlDb" "''u7''" "''admin''"]
    by simp
  have e: "authorizePatientAccess NotConnected (sampleRequest ''u1'' ''doctor'' ''p1'') \<noteq> Proceed"
    using patient_access_decision [OF r p, of "''p1''" NotConnected "''u1''" "''doctor''"]
    by simp
  from a b c d e show ?thesis by blast
qed


subsection \<open>Email addresses\<close>

text \<open>
  Claim C10. A successful registration stores the lower-cased address, and returns it.
  For a stored active user whose password verifies (addresses being unique in the table
  and the configured lifetimes leading to valid dates), login succeeds as that user for
  exactly the inputs whose lower-casing equals the stored address. Lower-casing is the
  runtime's \<^verbatim>\<open>toLowerCase\<close>, whatever it does to each character.
\<close>

theorem email_case_insensitive:
  "(register J L P env db email pw nm role fid now src nuid nid = (Inr resp, db')
      \<longrightarrow> (\<exists>u. users db' = users db @ [u] \<and> u_email u = toLowerCase J email) \<and>
          r_email resp = toLowerCase J email) \<and>
   (u \<in> set (users dbL) \<and> distinct (map u_email (users dbL)) \<and> u_isActive u \<and>
    verifyPassword P pwL (u_password u) \<and> validLifetimes J env nowL
      \<longrightarrow> ((\<exists>resp2. fst (login J L P env dbL emailL pwL ipL nowL srcL nidL) = Inr resp2 \<and>
                      r_id resp2 = u_id u \<and> r_email resp2 = u_email u)
             \<longleftrightarrow> toLowerCase J emailL = u_email u))"
proof (intro conjI impI)
  assume "register J L P env db email pw nm role fid now src nuid nid = (Inr resp, db')"
  from register_success [OF this]
  show "\<exists>u. users db' = users db @ [u] \<and> u_email u = toLowerCase J email"
    and "r_email resp = toLowerCase J email"
    by blast+
next
  assume h: "u \<in> set (users dbL) \<and> distinct (map u_email (users dbL)) \<and> u_isActive u \<and>
    verifyPassword P pwL (u_password u) \<and> validLifetimes J env nowL"
  show "(\<exists>resp2. fst (login J L P env dbL emailL pwL ipL nowL srcL nidL) = Inr resp2 \<and>
                      r_id resp2 = u_id u \<and> r_email resp2 = u_email u)
             \<longleftrightarrow> toLowerCase J emailL = u_email u"
  proof
    assume "\<exists>resp2. fst (login J L P env dbL emailL pwL ipL nowL srcL nidL) = Inr resp2 \<and>
                      r_id resp2 = u_id u \<and> r_email resp2 = u_email u"
    then obtain resp2 where ok: "fst (login J L P env dbL emailL pwL ipL nowL srcL nidL) = Inr resp2"
      and e: "r_email resp2 = u_email u"
      by blast
    from login_found [OF ok] obtain found where
      "find (\<lambda>x. u_email x = toLowerCase J emailL \<and> u_isActive x) (users dbL) = Some found"
      and "r_email resp2 = u_email found"
      by blast
    then have "u_email found = toLowerCase J emailL"
      by (auto dest: find_Some_set)
    with e \<open>r_email resp2 = u_email found\<close> show "toLowerCase J emailL = u_email u"
      by simp
  next
    assume eq: "toLowerCase J emailL = u_email u"
    from h have "find (\<lambda>x. u_email x = u_email u \<and> u_isActive x) (users dbL) = Some u"
      by (simp add: find_unique_email)
    with eq have "find (\<lambda>x. u_email x = toLowerCase J emailL \<and> u_isActive x) (users dbL) = Some u"
      by simp
    from login_ok [OF this] h
    show "\<exists>resp2. fst (login J L P env dbL emailL pwL ipL nowL srcL nidL) = Inr resp2 \<and>
                      r_id resp2 = u_id u \<and> r_email resp2 = u_email u"
      by blast
  qed
qed

theorem email_case_insensitive_witness:
  "(\<exists>resp db' u.
      register sampleRuntime sampleLib samplePasswords sampleEnv sampleDb ''Baraka@AfyaTrack.com''
        ''Afya123!'' ''Baraka'' None None 5 (\<lambda>i. 0) ''u2'' ''r2'' = (Inr resp, db') \<and>
      users db' = users sampleDb @ [u] \<and> u_email u = ''baraka@afyatrack.com'') \<and>
   (\<exists>resp2. fst (login sampleRuntime sampleLib samplePasswords sampleEnv sampleDb
                    ''Amina@AfyaTrack.com'' ''Afya123!'' None 5 (\<lambda>i. 0) ''r2'') = Inr resp2 \<and>
             r_id resp2 = ''u1'') \<and>
   fst (login sampleRuntime sampleLib samplePasswords sampleEnv sampleDb ''amina@afyatrack.org''
          ''Afya123!'' None 5 (\<lambda>i. 0) ''r2'') = Inl InvalidEmailOrPassword"
proof -
  obtain resp db' where
    reg: "register sampleRuntime sampleLib samplePasswords sampleEnv sampleDb ''Baraka@AfyaTrack.com''
        ''Afya123!'' ''Baraka'' None None 5 (\<lambda>i. 0) ''u2'' ''r2'' = (Inr resp, db')"
    using sample_register by blast
  have h: "sampleUser \<in> set (users sampleDb) \<and> distinct (map u_email (users sampleDb)) \<and>
      u_isActive sampleUser \<and> verifyPassword samplePasswords ''Afya123!'' (u_password sampleUser) \<and>
      validLifetimes sampleRuntime sampleEnv 5"
    by (simp add: sampleDb_def sampleUser_def samplePasswords_def sample_validLifetimes)
  note inst = email_case_insensitive
    [where J = sampleRuntime and L = sampleLib and P = samplePasswords and env = sampleEnv
       and db = sampleDb and email = "''Baraka@AfyaTrack.com''" and pw = "''Afya123!''"
       and nm = "''Baraka''" and role = None and fid = None and now = 5 and src = "\<lambda>i. 0"
       and nuid = "''u2''" and nid = "''r2''" and resp = resp and db' = db' and u = sampleUser
       and dbL = sampleDb and pwL = "''Afya123!''" and ipL = None and nowL = 5
       and srcL = "\<lambda>i. 0" and nidL = "''r2''"]
  have a: "\<exists>u. users db' = users sampleDb @ [u] \<and> u_email u = ''baraka@afyatrack.com''"
    using inst [where emailL = "''x''"] reg by (simp add: lower_baraka)
  have b: "\<exists>resp2. fst (login sampleRuntime sampleLib samplePasswords sampleEnv sampleDb
                    ''Amina@AfyaTrack.com'' ''Afya123!'' None 5 (\<lambda>i. 0) ''r2'') = Inr resp2 \<and>
                  r_id resp2 = ''u1''"
    using inst [where emailL = "''Amina@AfyaTrack.com''"] h by (auto simp: lower_amina sampleUser_def)
  have c: "fst (login sampleRuntime sampleLib samplePasswords sampleEnv sampleDb ''amina@afyatrack.org''
          ''Afya123!'' None 5 (\<lambda>i. 0) ''r2'') = Inl InvalidEmailOrPassword"
  proof -
    have "toLowerCase sampleRuntime ''amina@afyatrack.org'' = ''amina@afyatrack.org''" by code_simp
    then show ?thesis
      by (simp add: login_def sampleDb_def sampleUser_def)
  qed
  from reg a b c show ?thesis by blast
qed

end
